theory Spec2Isabelle
  imports Complex_Main "HOL-Library.AList" "HOL-Library.Sublist"
begin

section \<open>Data model\<close>

text \<open>
  The validation stage of the pipeline (\<^verbatim>\<open>networksecurity/components/data_validation.py\<close>)
  reads two CSV files, checks them against a schema, compares their column distributions
  and copies them to a valid or an invalid location. Everything it does beyond computing
  a value is an effect on the outside world: reading files, creating directories, writing
  files, logging. The embedding threads a trace of these effects through every operation
  and returns exceptions as values.
\<close>

type_synonym path = string

text \<open>
  A pandas \<^verbatim>\<open>DataFrame\<close> as the code uses it: the column labels in order, each with the
  values of its column. \<^verbatim>\<open>pd.read_csv\<close> yields pairwise distinct labels.
\<close>

type_synonym 'v dataframe = "(string \<times> 'v list) list"

text \<open>
  Python exceptions. \<^verbatim>\<open>KeyError\<close> is what a missing dictionary key or column label raises;
  \<^verbatim>\<open>ExternalError\<close> stands for whatever a collaborator outside the component raises
  (\<^verbatim>\<open>pd.read_csv\<close>, \<^verbatim>\<open>ks_2samp\<close>, \<^verbatim>\<open>os.makedirs\<close>, \<^verbatim>\<open>to_csv\<close>, \<^verbatim>\<open>write_yaml_file\<close>);
  \<^verbatim>\<open>NetworkSecurityException(e, sys)\<close> wraps the exception it was raised from.
\<close>

datatype exn =
    KeyError string
  | ExternalError string
  | NetworkSecurityException exn

text \<open>The schema file as loaded by \<^verbatim>\<open>read_yaml_file\<close>: a dictionary from a key to a sequence
  of entries. Under \<^verbatim>\<open>columns\<close> every entry stands for one single-key mapping of the file (only
  their number is used), under \<^verbatim>\<open>numerical_columns\<close> the entries are column names.\<close>

type_synonym schema_config = "string \<rightharpoonup> string list"

text \<open>\<^verbatim>\<open>DataValidationConfig\<close>: the attributes the component reads.\<close>

record DataValidationConfig =
  valid_data_dir :: path
  invalid_data_dir :: path
  cfg_valid_train_file_path :: path
  cfg_valid_test_file_path :: path
  cfg_invalid_train_file_path :: path
  cfg_invalid_test_file_path :: path
  cfg_drift_report_file_path :: path

record DataIngestionArtifact =
  trained_file_path :: path
  test_file_path :: path

record DataValidationArtifact =
  validation_status :: bool
  valid_train_file_path :: path
  valid_test_file_path :: path
  invalid_train_file_path :: path
  invalid_test_file_path :: path
  drift_report_file_path :: path

text \<open>
  A Python \<^verbatim>\<open>float\<close> as the component meets it: a number or NaN (the infinities, which no
  p-value and no significance level is, are left out). Every comparison with NaN is false, so
  \<open>\<not> float_ge p t\<close> and \<open>float_lt p t\<close> differ when one of them is NaN.
\<close>

datatype pyfloat = Finite real | NaN

fun float_ge :: "pyfloat \<Rightarrow> pyfloat \<Rightarrow> bool" where
  "float_ge (Finite a) (Finite b) = (a \<ge> b)"
| "float_ge _ _ = False"


text \<open>One entry of the drift report, and the report: a Python \<^verbatim>\<open>dict\<close> in insertion order.\<close>

record report_entry =
  p_value :: pyfloat
  drift_status :: bool

type_synonym drift_report = "(string \<times> report_entry) list"

text \<open>What the component logs, by message, with the values the message is formatted from.\<close>

datatype log_msg =
    RequiredNumberOfColumns nat
  | DataframeHasColumns nat
  | MissingNumericalColumns "string list"
  | DataValidationArtifactMsg DataValidationArtifact

text \<open>The effects of a run, in the order they happen.\<close>

datatype 'v event =
    LogInfo log_msg
  | MakeDirs path
  | ToCsv path "'v dataframe"
  | WriteYaml path drift_report

text \<open>
  The collaborators of the component, which are outside of it: what reading a CSV file
  yields, what the two-sample Kolmogorov-Smirnov test computes (its p-value, a float, which is
  NaN when the test propagates a missing value of its samples),
  and whether creating a directory or writing a file fails. A failure to create or write
  may depend on everything that happened before.
\<close>

record 'v world =
  read_csv :: "path \<Rightarrow> exn + 'v dataframe"
  ks_2samp :: "'v list \<Rightarrow> 'v list \<Rightarrow> exn + pyfloat"
  makedirs_error :: "'v event list \<Rightarrow> path \<Rightarrow> exn option"
  to_csv_error :: "'v event list \<Rightarrow> path \<Rightarrow> exn option"
  write_yaml_error :: "'v event list \<Rightarrow> path \<Rightarrow> exn option"

text \<open>A computation: from the trace so far to a value or an exception, and the new trace.\<close>

type_synonym ('v, 'a) prog = "'v event list \<Rightarrow> (exn + 'a) \<times> 'v event list"

section \<open>Sequencing and exceptions\<close>

definition ret :: "'a \<Rightarrow> ('v, 'a) prog" where
  "ret a s = (Inr a, s)"

definition bnd :: "('v, 'a) prog \<Rightarrow> ('a \<Rightarrow> ('v, 'b) prog) \<Rightarrow> ('v, 'b) prog" where
  "bnd m f s = (case m s of (Inl e, s') \<Rightarrow> (Inl e, s') | (Inr a, s') \<Rightarrow> f a s')"

text \<open>\<^verbatim>\<open>try: ... except Exception as e: raise NetworkSecurityException(e, sys)\<close>\<close>

definition try_except :: "('v, 'a) prog \<Rightarrow> ('v, 'a) prog" where
  "try_except m s =
     (case m s of (Inl e, s') \<Rightarrow> (Inl (NetworkSecurityException e), s') | (Inr a, s') \<Rightarrow> (Inr a, s'))"

definition of_result :: "exn + 'a \<Rightarrow> ('v, 'a) prog" where
  "of_result r s = (r, s)"

section \<open>Primitive effects\<close>

definition logging_info :: "log_msg \<Rightarrow> ('v, unit) prog" where
  "logging_info msg s = (Inr (), s @ [LogInfo msg])"

definition os_makedirs :: "'v world \<Rightarrow> path \<Rightarrow> ('v, unit) prog" where
  "os_makedirs w p s =
     (case makedirs_error w s p of Some e \<Rightarrow> (Inl e, s) | None \<Rightarrow> (Inr (), s @ [MakeDirs p]))"

definition to_csv :: "'v world \<Rightarrow> 'v dataframe \<Rightarrow> path \<Rightarrow> ('v, unit) prog" where
  "to_csv w df p s =
     (case to_csv_error w s p of Some e \<Rightarrow> (Inl e, s) | None \<Rightarrow> (Inr (), s @ [ToCsv p df]))"

definition write_yaml_file :: "'v world \<Rightarrow> path \<Rightarrow> drift_report \<Rightarrow> ('v, unit) prog" where
  "write_yaml_file w p content s =
     (case write_yaml_error w s p of Some e \<Rightarrow> (Inl e, s) | None \<Rightarrow> (Inr (), s @ [WriteYaml p content]))"

section \<open>Paths (\<^verbatim>\<open>posixpath\<close>)\<close>

definition basename :: "path \<Rightarrow> path" where
  "basename p = rev (takeWhile (\<lambda>c. c \<noteq> CHR ''/'') (rev p))"

definition dirname :: "path \<Rightarrow> path" where
  "dirname p =
     (let head = rev (dropWhile (\<lambda>c. c \<noteq> CHR ''/'') (rev p))
      in if head \<noteq> [] \<and> head \<noteq> replicate (length head) (CHR ''/'')
         then rev (dropWhile (\<lambda>c. c = CHR ''/'') (rev head))
         else head)"

section \<open>Data frames and dictionaries\<close>

definition columns :: "'v dataframe \<Rightarrow> string list" where
  "columns df = map fst df"

text \<open>\<^verbatim>\<open>df[column]\<close>: the column, or \<^verbatim>\<open>KeyError\<close>.\<close>

definition getitem :: "'v dataframe \<Rightarrow> string \<Rightarrow> exn + 'v list" where
  "getitem df column = (case map_of df column of None \<Rightarrow> Inl (KeyError column) | Some d \<Rightarrow> Inr d)"

text \<open>\<^verbatim>\<open>self._schema_config[key]\<close>\<close>

definition schema_getitem :: "schema_config \<Rightarrow> string \<Rightarrow> exn + string list" where
  "schema_getitem schema key = (case schema key of None \<Rightarrow> Inl (KeyError key) | Some v \<Rightarrow> Inr v)"

section \<open>The component\<close>

definition read_data :: "'v world \<Rightarrow> path \<Rightarrow> ('v, 'v dataframe) prog" where
  "read_data w file_path = try_except (of_result (read_csv w file_path))"

definition validate_number_of_columns :: "schema_config \<Rightarrow> 'v dataframe \<Rightarrow> ('v, bool) prog" where
  "validate_number_of_columns schema dataframe =
     try_except
       (bnd (of_result (schema_getitem schema ''columns'')) (\<lambda>cols.
        let number_of_columns = length cols in
        bnd (logging_info (RequiredNumberOfColumns number_of_columns)) (\<lambda>_.
        bnd (logging_info (DataframeHasColumns (length (columns dataframe)))) (\<lambda>_.
        if length (columns dataframe) = number_of_columns then ret True else ret False))))"

text \<open>The loop of \<^verbatim>\<open>is_numerical_column_exist\<close> that collects the missing names.\<close>

fun missing_loop :: "string list \<Rightarrow> string list \<Rightarrow> string list \<Rightarrow> string list" where
  "missing_loop dataframe_columns [] missing_numerical_columns = missing_numerical_columns"
| "missing_loop dataframe_columns (column # rest) missing_numerical_columns =
     (if column \<notin> set dataframe_columns
      then missing_loop dataframe_columns rest (missing_numerical_columns @ [column])
      else missing_loop dataframe_columns rest missing_numerical_columns)"

definition is_numerical_column_exist :: "schema_config \<Rightarrow> 'v dataframe \<Rightarrow> ('v, bool) prog" where
  "is_numerical_column_exist schema dataframe =
     try_except
       (bnd (of_result (schema_getitem schema ''numerical_columns'')) (\<lambda>numerical_columns.
        let dataframe_columns = columns dataframe;
            missing_numerical_columns = missing_loop dataframe_columns numerical_columns []
        in if length missing_numerical_columns > 0
           then bnd (logging_info (MissingNumericalColumns missing_numerical_columns)) (\<lambda>_. ret False)
           else ret True))"

text \<open>The loop of \<^verbatim>\<open>detect_dataset_drift\<close> over the columns of the base data frame, on the
  pair of the overall flag and the report built so far.\<close>

fun drift_loop ::
  "'v world \<Rightarrow> 'v dataframe \<Rightarrow> 'v dataframe \<Rightarrow> pyfloat \<Rightarrow> string list \<Rightarrow> bool \<times> drift_report
     \<Rightarrow> exn + bool \<times> drift_report" where
  "drift_loop w base_df current_df threshold [] (drift_flag, report) = Inr (drift_flag, report)"
| "drift_loop w base_df current_df threshold (column # rest) (drift_flag, report) =
     (case getitem base_df column of
        Inl e \<Rightarrow> Inl e
      | Inr d1 \<Rightarrow>
         (case getitem current_df column of
            Inl e \<Rightarrow> Inl e
          | Inr d2 \<Rightarrow>
             (case ks_2samp w d1 d2 of
                Inl e \<Rightarrow> Inl e
              | Inr pvalue \<Rightarrow>
                 if float_ge pvalue threshold
                 then drift_loop w base_df current_df threshold rest
                        (drift_flag,
                         AList.update column \<lparr>p_value = pvalue, drift_status = False\<rparr> report)
                 else drift_loop w base_df current_df threshold rest
                        (True,
                         AList.update column \<lparr>p_value = pvalue, drift_status = True\<rparr> report))))"

definition detect_dataset_drift ::
  "'v world \<Rightarrow> DataValidationConfig \<Rightarrow> 'v dataframe \<Rightarrow> 'v dataframe \<Rightarrow> pyfloat \<Rightarrow> ('v, bool) prog" where
  "detect_dataset_drift w cfg base_df current_df threshold =
     try_except
       (bnd (of_result (drift_loop w base_df current_df threshold (columns base_df) (False, [])))
          (\<lambda>(drift_flag, report).
        let drift_report_file_path = cfg_drift_report_file_path cfg;
            dir_path = dirname drift_report_file_path
        in bnd (os_makedirs w dir_path) (\<lambda>_.
           bnd (write_yaml_file w drift_report_file_path report) (\<lambda>_.
           ret drift_flag))))"

text \<open>The default of the \<^verbatim>\<open>threshold\<close> parameter.\<close>

definition default_threshold :: pyfloat where
  "default_threshold = Finite (5 / 100)"

definition initiate_data_validation ::
  "'v world \<Rightarrow> DataValidationConfig \<Rightarrow> schema_config \<Rightarrow> DataIngestionArtifact
     \<Rightarrow> ('v, DataValidationArtifact) prog" where
  "initiate_data_validation w cfg schema ingestion =
     try_except
       (let train_file_path = trained_file_path ingestion;
            test_file_path = test_file_path ingestion
        in
        bnd (read_data w train_file_path) (\<lambda>train_dataframe.
        bnd (read_data w test_file_path) (\<lambda>test_dataframe.
        let validation_status = True in
        bnd (validate_number_of_columns schema train_dataframe) (\<lambda>status.
        let validation_status = (if \<not> status then False else validation_status) in
        bnd (validate_number_of_columns schema test_dataframe) (\<lambda>status.
        let validation_status = (if \<not> status then False else validation_status) in
        bnd (is_numerical_column_exist schema train_dataframe) (\<lambda>status.
        let validation_status = (if \<not> status then False else validation_status) in
        bnd (is_numerical_column_exist schema test_dataframe) (\<lambda>status.
        let validation_status = (if \<not> status then False else validation_status) in
        bnd (if validation_status
             then bnd (detect_dataset_drift w cfg train_dataframe test_dataframe default_threshold)
                    (\<lambda>drift_status. ret ())
             else ret ()) (\<lambda>_.
        let dir_path = (if validation_status then valid_data_dir cfg else invalid_data_dir cfg) in
        bnd (os_makedirs w dir_path) (\<lambda>_.
        let train_filename = basename train_file_path;
            test_filename = basename test_file_path
        in
        bnd (if validation_status
             then bnd (to_csv w train_dataframe (cfg_valid_train_file_path cfg)) (\<lambda>_.
                       to_csv w test_dataframe (cfg_valid_test_file_path cfg))
             else bnd (to_csv w train_dataframe (cfg_invalid_train_file_path cfg)) (\<lambda>_.
                       to_csv w test_dataframe (cfg_invalid_test_file_path cfg))) (\<lambda>_.
        let data_validation_artifact =
              \<lparr>validation_status = validation_status,
               valid_train_file_path = cfg_valid_train_file_path cfg,
               valid_test_file_path = cfg_valid_test_file_path cfg,
               invalid_train_file_path = cfg_invalid_train_file_path cfg,
               invalid_test_file_path = cfg_invalid_test_file_path cfg,
               drift_report_file_path = cfg_drift_report_file_path cfg\<rparr>
        in
        bnd (logging_info (DataValidationArtifactMsg data_validation_artifact)) (\<lambda>_.
        ret data_validation_artifact)))))))))))"

section \<open>Auxiliary definitions\<close>

text \<open>The destination directory, output paths and artifact of \<^verbatim>\<open>initiate_data_validation\<close>, as functions of the accumulated status.\<close>

definition out_dir :: "DataValidationConfig \<Rightarrow> bool \<Rightarrow> path" where
  "out_dir cfg ok = (if ok then valid_data_dir cfg else invalid_data_dir cfg)"

text \<open>The two closing phases of \<^verbatim>\<open>initiate_data_validation\<close>, named for the proofs: the conditional drift detection, and the persisting of the outputs with the construction of the artifact. Lemma \<open>initiate_data_validation_phases\<close> shows the function is their sequence after the reads and the four checks.\<close>

definition drift_phase ::
  "'v world \<Rightarrow> DataValidationConfig \<Rightarrow> 'v dataframe \<Rightarrow> 'v dataframe \<Rightarrow> bool \<Rightarrow> ('v, unit) prog" where
  "drift_phase w cfg train test ok =
     (if ok then bnd (detect_dataset_drift w cfg train test default_threshold) (\<lambda>drift_flag. ret ())
      else ret ())"

definition artifact_of :: "DataValidationConfig \<Rightarrow> bool \<Rightarrow> DataValidationArtifact" where
  "artifact_of cfg ok =
     \<lparr>validation_status = ok,
      valid_train_file_path = cfg_valid_train_file_path cfg,
      valid_test_file_path = cfg_valid_test_file_path cfg,
      invalid_train_file_path = cfg_invalid_train_file_path cfg,
      invalid_test_file_path = cfg_invalid_test_file_path cfg,
      drift_report_file_path = cfg_drift_report_file_path cfg\<rparr>"

definition train_out :: "DataValidationConfig \<Rightarrow> bool \<Rightarrow> path" where
  "train_out cfg ok = (if ok then cfg_valid_train_file_path cfg else cfg_invalid_train_file_path cfg)"

definition test_out :: "DataValidationConfig \<Rightarrow> bool \<Rightarrow> path" where
  "test_out cfg ok = (if ok then cfg_valid_test_file_path cfg else cfg_invalid_test_file_path cfg)"

definition persist_phase ::
  "'v world \<Rightarrow> DataValidationConfig \<Rightarrow> 'v dataframe \<Rightarrow> 'v dataframe \<Rightarrow> bool
     \<Rightarrow> ('v, DataValidationArtifact) prog" where
  "persist_phase w cfg train test ok =
     bnd (os_makedirs w (out_dir cfg ok)) (\<lambda>_.
     bnd (to_csv w train (train_out cfg ok)) (\<lambda>_.
     bnd (to_csv w test (test_out cfg ok)) (\<lambda>_.
     bnd (logging_info (DataValidationArtifactMsg (artifact_of cfg ok))) (\<lambda>_.
     ret (artifact_of cfg ok)))))"

text \<open>What a trace says was written: the CSV files and the YAML files, in order, and the paths of both.\<close>

primrec written_csv :: "'v event list \<Rightarrow> (path \<times> 'v dataframe) list" where
  "written_csv [] = []"
| "written_csv (e # es) =
     (case e of ToCsv p df \<Rightarrow> (p, df) # written_csv es | _ \<Rightarrow> written_csv es)"

primrec written_yaml :: "'v event list \<Rightarrow> (path \<times> drift_report) list" where
  "written_yaml [] = []"
| "written_yaml (e # es) =
     (case e of WriteYaml p r \<Rightarrow> (p, r) # written_yaml es | _ \<Rightarrow> written_yaml es)"

definition written_paths :: "'v event list \<Rightarrow> path list" where
  "written_paths es = map fst (written_csv es) @ map fst (written_yaml es)"

text \<open>Concrete inputs for the examples: a schema of two columns with one numerical column, small data frames, a stand-in for the statistical test on them, and a world in which the listed files exist and no directory creation or write fails.\<close>

definition demo_schema :: schema_config where
  "demo_schema = [''columns'' \<mapsto> [''a'', ''b''], ''numerical_columns'' \<mapsto> [''a'']]"

definition demo_df :: "int dataframe" where
  "demo_df = [(''a'', [0]), (''b'', [0])]"

definition extra_df :: "int dataframe" where
  "extra_df = [(''a'', [0]), (''b'', [0]), (''c'', [0])]"

definition demo_ks :: "int list \<Rightarrow> int list \<Rightarrow> exn + pyfloat" where
  "demo_ks d1 d2 =
     (if d1 = [] \<or> d2 = [] then Inl (ExternalError ''ValueError'')
      else if d1 = d2 then Inr (Finite 1)
      else if d2 = [5] then Inr (Finite (5 / 100))
      else Inr (Finite (1 / 100)))"

definition demo_world :: "(path \<times> int dataframe) list \<Rightarrow> int world" where
  "demo_world files =
     \<lparr>read_csv = (\<lambda>p. case map_of files p of
                         None \<Rightarrow> Inl (ExternalError ''FileNotFoundError'') | Some df \<Rightarrow> Inr df),
      ks_2samp = demo_ks,
      makedirs_error = (\<lambda>_ _. None),
      to_csv_error = (\<lambda>_ _. None),
      write_yaml_error = (\<lambda>_ _. None)\<rparr>"

definition demo_cfg :: DataValidationConfig where
  "demo_cfg =
     \<lparr>valid_data_dir = ''out/validated'',
      invalid_data_dir = ''out/invalid'',
      cfg_valid_train_file_path = ''out/validated/train.csv'',
      cfg_valid_test_file_path = ''out/validated/test.csv'',
      cfg_invalid_train_file_path = ''out/invalid/train.csv'',
      cfg_invalid_test_file_path = ''out/invalid/test.csv'',
      cfg_drift_report_file_path = ''out/drift_report/report.yaml''\<rparr>"

definition demo_ing :: DataIngestionArtifact where
  "demo_ing = \<lparr>trained_file_path = ''in/train.csv'', test_file_path = ''in/test.csv''\<rparr>"

text \<open>A data frame without the numerical column \<^verbatim>\<open>a\<close>, and two data frames for the drift examples: the current one has a column the base one lacks.\<close>

definition no_a_df :: "int dataframe" where
  "no_a_df = [(''x'', [0]), (''b'', [0])]"

definition base3_df :: "int dataframe" where
  "base3_df = [(''a'', [0]), (''b'', [1]), (''c'', [2])]"

definition current4_df :: "int dataframe" where
  "current4_df = [(''a'', [0]), (''b'', [5]), (''c'', [7]), (''d'', [9])]"

definition demo_report :: drift_report where
  "demo_report =
     [(''a'', \<lparr>p_value = Finite 1, drift_status = False\<rparr>),
      (''b'', \<lparr>p_value = Finite (5 / 100), drift_status = False\<rparr>),
      (''c'', \<lparr>p_value = Finite (1 / 100), drift_status = True\<rparr>)]"




text \<open>The same world with every CSV write refused, and a data frame whose only column is empty (the statistical test rejects it).\<close>

definition readonly_world :: "(path \<times> int dataframe) list \<Rightarrow> int world" where
  "readonly_world files =
     (demo_world files)\<lparr>to_csv_error := (\<lambda>_ _. Some (ExternalError ''PermissionError''))\<rparr>"

definition empty_df :: "int dataframe" where
  "empty_df = [(''a'', [])]"

section \<open>Properties\<close>

subsection \<open>The structural checks\<close>

lemmas prog_defs = Let_def ret_def bnd_def try_except_def of_result_def logging_info_def
  os_makedirs_def to_csv_def write_yaml_file_def

lemma missing_loop_filter:
  "missing_loop cols xs acc = acc @ filter (\<lambda>c. c \<notin> set cols) xs"
  by (induction xs arbitrary: acc) simp_all

lemma filter_missing_empty:
  "filter (\<lambda>c. c \<notin> set cols) xs = [] \<longleftrightarrow> set xs \<subseteq> set cols"
  by (auto simp: filter_empty_conv)

text \<open>C7: for every data frame \<open>D\<close>, the column-count check returns true exactly when the number of columns of \<open>D\<close> equals the number of entries of the schema under \<^verbatim>\<open>columns\<close>, whatever the names are, and false for any other count; it logs the two numbers.\<close>

theorem validate_number_of_columns_count:
  assumes "schema ''columns'' = Some cols"
  shows "validate_number_of_columns schema D s =
           (Inr (length (columns D) = length cols),
            s @ [LogInfo (RequiredNumberOfColumns (length cols)),
                 LogInfo (DataframeHasColumns (length (columns D)))])"
  using assms by (simp add: validate_number_of_columns_def schema_getitem_def prog_defs)

text \<open>C6: for every data frame \<open>D\<close>, the numerical-column check returns true exactly when every name of the schema's \<^verbatim>\<open>numerical_columns\<close> is a column of \<open>D\<close>; when it returns false it logs the missing names, which are exactly the numerical columns that are not columns of \<open>D\<close>, and it returns a value (it does not raise).\<close>

theorem is_numerical_column_exist_iff:
  assumes "schema ''numerical_columns'' = Some num"
  shows "is_numerical_column_exist schema D s =
           (Inr (set num \<subseteq> set (columns D)),
            if set num \<subseteq> set (columns D) then s
            else s @ [LogInfo (MissingNumericalColumns (filter (\<lambda>c. c \<notin> set (columns D)) num))])
         \<and> set (filter (\<lambda>c. c \<notin> set (columns D)) num) = set num - set (columns D)"
  using assms
  by (auto simp: is_numerical_column_exist_def schema_getitem_def prog_defs missing_loop_filter
      filter_missing_empty)

lemma validate_number_of_columns_keyerror:
  assumes "schema ''columns'' = None"
  shows "validate_number_of_columns schema D s = (Inl (NetworkSecurityException (KeyError ''columns'')), s)"
  using assms by (simp add: validate_number_of_columns_def schema_getitem_def prog_defs)

subsection \<open>The loop of the drift detector\<close>

lemma getitem_Inr_iff: "(\<exists>d. getitem df c = Inr d) \<longleftrightarrow> c \<in> set (columns df)"
  by (auto simp: getitem_def columns_def map_of_eq_None_iff split: option.splits)
     (metis map_of_eq_None_iff not_Some_eq)

lemma drift_loop_keys:
  "drift_loop w base cur t cols (d0, r0) = Inr (d, r) \<Longrightarrow>
   distinct cols \<Longrightarrow> set cols \<inter> set (map fst r0) = {} \<Longrightarrow>
   map fst r = map fst r0 @ cols"
proof (induction cols arbitrary: d0 r0)
  case Nil
  then show ?case by simp
next
  case (Cons c cols)
  from Cons.prems(1) obtain d1 d2 p where
    g1: "getitem base c = Inr d1" and g2: "getitem cur c = Inr d2" and ks: "ks_2samp w d1 d2 = Inr p"
    by (auto split: sum.splits)
  let ?e = "\<lparr>p_value = p, drift_status = \<not> float_ge p t\<rparr>"
  let ?r1 = "AList.update c ?e r0"
  from Cons.prems(1) g1 g2 ks
  have step: "drift_loop w base cur t cols (d0 \<or> \<not> float_ge p t, ?r1) = Inr (d, r)"
    by (auto split: if_splits)
  have keys1: "map fst ?r1 = map fst r0 @ [c]"
    using Cons.prems(3) by (simp add: update_keys)
  have "map fst r = map fst ?r1 @ cols"
    using Cons.IH[OF step] Cons.prems(2,3) keys1 by auto
  then show ?case using keys1 by simp
qed

lemma drift_loop_entries:
  "drift_loop w base cur t cols (d0, r0) = Inr (d, r) \<Longrightarrow>
   (\<forall>c\<in>set cols. \<exists>d1 d2 p. getitem base c = Inr d1 \<and> getitem cur c = Inr d2 \<and>
        ks_2samp w d1 d2 = Inr p \<and> map_of r c = Some \<lparr>p_value = p, drift_status = (\<not> float_ge p t)\<rparr>) \<and>
   (\<forall>c. c \<notin> set cols \<longrightarrow> map_of r c = map_of r0 c) \<and>
   (d \<longleftrightarrow> d0 \<or> (\<exists>c\<in>set cols. \<exists>e. map_of r c = Some e \<and> drift_status e))"
proof (induction cols arbitrary: d0 r0)
  case Nil
  then show ?case by simp
next
  case (Cons c cols)
  from Cons.prems(1) obtain d1 d2 p where
    g1: "getitem base c = Inr d1" and g2: "getitem cur c = Inr d2" and ks: "ks_2samp w d1 d2 = Inr p"
    by (auto split: sum.splits)
  let ?e = "\<lparr>p_value = p, drift_status = (\<not> float_ge p t)\<rparr>"
  let ?r1 = "AList.update c ?e r0"
  from Cons.prems(1) g1 g2 ks
  have step: "drift_loop w base cur t cols (d0 \<or> \<not> float_ge p t, ?r1) = Inr (d, r)"
    by (auto split: if_splits)
  note IH = Cons.IH[OF step]
  have r1: "map_of ?r1 = (map_of r0)(c \<mapsto> ?e)"
    by (simp add: update_conv')
  have c_entry: "map_of r c = Some ?e"
  proof (cases "c \<in> set cols")
    case True
    with IH g1 g2 ks show ?thesis by fastforce
  next
    case False
    with IH r1 show ?thesis by simp
  qed
  have A: "\<forall>c'\<in>set (c # cols). \<exists>d1 d2 p. getitem base c' = Inr d1 \<and> getitem cur c' = Inr d2 \<and>
        ks_2samp w d1 d2 = Inr p \<and> map_of r c' = Some \<lparr>p_value = p, drift_status = (\<not> float_ge p t)\<rparr>"
    using IH c_entry g1 g2 ks by auto
  have B: "\<forall>c'. c' \<notin> set (c # cols) \<longrightarrow> map_of r c' = map_of r0 c'"
    using IH r1 by auto
  have C: "d \<longleftrightarrow> d0 \<or> (\<exists>c'\<in>set (c # cols). \<exists>e. map_of r c' = Some e \<and> drift_status e)"
    using IH c_entry by auto
  from A B C show ?case by blast
qed

lemma drift_loop_raises:
  "c \<in> set cols \<Longrightarrow> c \<notin> set (columns cur) \<Longrightarrow>
   \<exists>e. drift_loop w base cur t cols acc = Inl e"
proof (induction cols arbitrary: acc)
  case Nil
  then show ?case by simp
next
  case (Cons a cols)
  obtain d0 r0 where acc: "acc = (d0, r0)" by (cases acc)
  show ?case
  proof (cases "a = c")
    case True
    have "\<not> (\<exists>d. getitem cur c = Inr d)"
      using Cons.prems(2) getitem_Inr_iff by blast
    then obtain e where "getitem cur c = Inl e"
      by (cases "getitem cur c") auto
    then show ?thesis using True acc by (auto split: sum.splits)
  next
    case False
    with Cons.prems have "c \<in> set cols" by simp
    from Cons.IH[OF this Cons.prems(2)] show ?thesis
      using acc by (auto split: sum.splits)
  qed
qed

lemma detect_dataset_drift_Inr:
  "detect_dataset_drift w cfg base cur t s = (Inr flag, s') \<longleftrightarrow>
   (\<exists>report. drift_loop w base cur t (columns base) (False, []) = Inr (flag, report) \<and>
      makedirs_error w s (dirname (cfg_drift_report_file_path cfg)) = None \<and>
      write_yaml_error w (s @ [MakeDirs (dirname (cfg_drift_report_file_path cfg))])
         (cfg_drift_report_file_path cfg) = None \<and>
      s' = s @ [MakeDirs (dirname (cfg_drift_report_file_path cfg)),
                WriteYaml (cfg_drift_report_file_path cfg) report])"
  by (auto simp: detect_dataset_drift_def prog_defs split: sum.splits option.splits prod.splits)

subsection \<open>When a computation returns\<close>

lemma read_data_Inr: "read_data w p s = (Inr df, s') \<longleftrightarrow> read_csv w p = Inr df \<and> s' = s"
  by (auto simp: read_data_def prog_defs split: sum.splits)

lemma bnd_Inr:
  "bnd m f s = (Inr b, s') \<longleftrightarrow> (\<exists>a s1. m s = (Inr a, s1) \<and> f a s1 = (Inr b, s'))"
  by (auto simp: bnd_def split: prod.splits sum.splits)

lemma try_except_Inr: "try_except m s = (Inr a, s') \<longleftrightarrow> m s = (Inr a, s')"
  by (auto simp: try_except_def split: prod.splits sum.splits)

lemma ret_eq: "ret a s = (r, s') \<longleftrightarrow> r = Inr a \<and> s' = s"
  by (auto simp: ret_def)

lemma os_makedirs_Inr:
  "os_makedirs w p s = (Inr u, s') \<longleftrightarrow> makedirs_error w s p = None \<and> s' = s @ [MakeDirs p]"
  by (auto simp: os_makedirs_def split: option.splits)

lemma to_csv_Inr:
  "to_csv w df p s = (Inr u, s') \<longleftrightarrow> to_csv_error w s p = None \<and> s' = s @ [ToCsv p df]"
  by (auto simp: to_csv_def split: option.splits)

lemma logging_info_eq:
  "logging_info msg s = (r, s') \<longleftrightarrow> r = Inr () \<and> s' = s @ [LogInfo msg]"
  by (auto simp: logging_info_def)

subsection \<open>The orchestrator as a sequence of phases\<close>

lemma bnd_assoc: "bnd (bnd m f) g = bnd m (\<lambda>a. bnd (f a) g)"
  by (rule ext) (simp add: bnd_def split: prod.splits sum.splits)

lemma initiate_data_validation_phases:
  "initiate_data_validation w cfg schema ing =
     try_except
       (bnd (read_data w (trained_file_path ing)) (\<lambda>train.
        bnd (read_data w (test_file_path ing)) (\<lambda>test.
        bnd (validate_number_of_columns schema train) (\<lambda>a.
        bnd (validate_number_of_columns schema test) (\<lambda>b.
        bnd (is_numerical_column_exist schema train) (\<lambda>c.
        bnd (is_numerical_column_exist schema test) (\<lambda>d.
        bnd (drift_phase w cfg train test (a \<and> b \<and> c \<and> d)) (\<lambda>_.
        persist_phase w cfg train test (a \<and> b \<and> c \<and> d)))))))))"
proof -
  have status: "(if \<not> d then False else if \<not> c then False else if \<not> b then False
                 else if \<not> a then False else True) = (a \<and> b \<and> c \<and> d)" for a b c d
    by auto
  have persist: "persist_phase w cfg train test ok =
      bnd (os_makedirs w (if ok then valid_data_dir cfg else invalid_data_dir cfg)) (\<lambda>_.
      bnd (if ok
           then bnd (to_csv w train (cfg_valid_train_file_path cfg)) (\<lambda>_.
                     to_csv w test (cfg_valid_test_file_path cfg))
           else bnd (to_csv w train (cfg_invalid_train_file_path cfg)) (\<lambda>_.
                     to_csv w test (cfg_invalid_test_file_path cfg))) (\<lambda>_.
      bnd (logging_info (DataValidationArtifactMsg (artifact_of cfg ok))) (\<lambda>_.
      ret (artifact_of cfg ok))))" for train test ok
    by (simp add: persist_phase_def out_dir_def train_out_def test_out_def bnd_assoc)
  show ?thesis
    unfolding initiate_data_validation_def Let_def status persist drift_phase_def artifact_of_def
    by (rule refl)
qed

lemma drift_phase_Inr:
  "drift_phase w cfg train test ok s = (Inr u, s') \<longleftrightarrow>
   (if ok then \<exists>flag. detect_dataset_drift w cfg train test default_threshold s = (Inr flag, s')
    else s' = s)"
  by (auto simp: drift_phase_def bnd_Inr ret_eq)

lemma persist_phase_Inr:
  "persist_phase w cfg train test ok s = (Inr art, s') \<longleftrightarrow>
   makedirs_error w s (out_dir cfg ok) = None \<and>
   to_csv_error w (s @ [MakeDirs (out_dir cfg ok)]) (train_out cfg ok) = None \<and>
   to_csv_error w (s @ [MakeDirs (out_dir cfg ok), ToCsv (train_out cfg ok) train]) (test_out cfg ok) = None \<and>
   art = artifact_of cfg ok \<and>
   s' = s @ [MakeDirs (out_dir cfg ok), ToCsv (train_out cfg ok) train, ToCsv (test_out cfg ok) test,
             LogInfo (DataValidationArtifactMsg (artifact_of cfg ok))]"
  by (auto simp: persist_phase_def bnd_Inr ret_eq os_makedirs_Inr to_csv_Inr logging_info_eq)

lemma initiate_data_validation_Inr:
  "initiate_data_validation w cfg schema ing s = (Inr art, s') \<longleftrightarrow>
   (\<exists>train test a s1 b s2 c s3 d s4 s5.
      read_csv w (trained_file_path ing) = Inr train \<and>
      read_csv w (test_file_path ing) = Inr test \<and>
      validate_number_of_columns schema train s = (Inr a, s1) \<and>
      validate_number_of_columns schema test s1 = (Inr b, s2) \<and>
      is_numerical_column_exist schema train s2 = (Inr c, s3) \<and>
      is_numerical_column_exist schema test s3 = (Inr d, s4) \<and>
      (if a \<and> b \<and> c \<and> d
       then \<exists>flag. detect_dataset_drift w cfg train test default_threshold s4 = (Inr flag, s5)
       else s5 = s4) \<and>
      persist_phase w cfg train test (a \<and> b \<and> c \<and> d) s5 = (Inr art, s'))"
  unfolding initiate_data_validation_phases try_except_Inr bnd_Inr read_data_Inr drift_phase_Inr
  by (simp only: ex_simps conj_assoc simp_thms)

subsection \<open>Traces of the checks\<close>

lemma written_csv_append: "written_csv (xs @ ys) = written_csv xs @ written_csv ys"
  by (induction xs) (auto split: event.splits)

lemma written_yaml_append: "written_yaml (xs @ ys) = written_yaml xs @ written_yaml ys"
  by (induction xs) (auto split: event.splits)

lemma read_data_eq:
  "read_data w p s =
     (case read_csv w p of Inl e \<Rightarrow> (Inl (NetworkSecurityException e), s) | Inr df \<Rightarrow> (Inr df, s))"
  by (simp add: read_data_def prog_defs split: sum.splits)

lemma validate_number_of_columns_Inr:
  "validate_number_of_columns schema D s = (Inr a, s1) \<Longrightarrow>
   \<exists>cols. schema ''columns'' = Some cols \<and> a = (length (columns D) = length cols) \<and>
     s1 = s @ [LogInfo (RequiredNumberOfColumns (length cols)),
               LogInfo (DataframeHasColumns (length (columns D)))]"
  by (cases "schema ''columns''")
     (auto simp: validate_number_of_columns_def schema_getitem_def prog_defs split: if_splits)

lemma is_numerical_column_exist_Inr:
  "is_numerical_column_exist schema D s = (Inr a, s1) \<Longrightarrow>
   \<exists>num. schema ''numerical_columns'' = Some num \<and> a = (set num \<subseteq> set (columns D)) \<and>
     s1 = (if a then s
           else s @ [LogInfo (MissingNumericalColumns (filter (\<lambda>c. c \<notin> set (columns D)) num))])"
  by (cases "schema ''numerical_columns''")
     (auto simp: is_numerical_column_exist_def schema_getitem_def prog_defs missing_loop_filter
        filter_missing_empty split: if_splits)

lemma checks_only_log:
  assumes "validate_number_of_columns schema train s = (Inr a, s1)"
    and "validate_number_of_columns schema test s1 = (Inr b, s2)"
    and "is_numerical_column_exist schema train s2 = (Inr c, s3)"
    and "is_numerical_column_exist schema test s3 = (Inr d, s4)"
  shows "\<exists>logs. s4 = s @ logs \<and> written_csv logs = [] \<and> written_yaml logs = []"
proof -
  from validate_number_of_columns_Inr[OF assms(1)] obtain l1 where
    1: "s1 = s @ l1" "written_csv l1 = []" "written_yaml l1 = []" by auto
  from validate_number_of_columns_Inr[OF assms(2)] obtain l2 where
    2: "s2 = s1 @ l2" "written_csv l2 = []" "written_yaml l2 = []" by auto
  from is_numerical_column_exist_Inr[OF assms(3)] obtain l3 where
    3: "s3 = s2 @ l3" "written_csv l3 = []" "written_yaml l3 = []"
    by (cases c) auto
  from is_numerical_column_exist_Inr[OF assms(4)] obtain l4 where
    4: "s4 = s3 @ l4" "written_csv l4 = []" "written_yaml l4 = []"
    by (cases d) auto
  have "s4 = s @ (l1 @ l2 @ l3 @ l4)" using 1 2 3 4 by simp
  moreover have "written_csv (l1 @ l2 @ l3 @ l4) = []" "written_yaml (l1 @ l2 @ l3 @ l4) = []"
    using 1 2 3 4 by (simp_all add: written_csv_append written_yaml_append)
  ultimately show ?thesis by blast
qed

lemma initiate_data_validation_after_checks:
  assumes "read_csv w (trained_file_path ing) = Inr train"
    and "read_csv w (test_file_path ing) = Inr test"
    and "validate_number_of_columns schema train s = (Inr a, s1)"
    and "validate_number_of_columns schema test s1 = (Inr b, s2)"
    and "is_numerical_column_exist schema train s2 = (Inr c, s3)"
    and "is_numerical_column_exist schema test s3 = (Inr d, s4)"
  shows "initiate_data_validation w cfg schema ing s =
           try_except (bnd (drift_phase w cfg train test (a \<and> b \<and> c \<and> d)) (\<lambda>_.
                       persist_phase w cfg train test (a \<and> b \<and> c \<and> d))) s4"
proof -
  have r1: "read_data w (trained_file_path ing) s = (Inr train, s)"
    and r2: "read_data w (test_file_path ing) s = (Inr test, s)"
    using assms(1,2) by (simp_all add: read_data_eq)
  show ?thesis
    unfolding initiate_data_validation_phases
    by (simp add: try_except_def bnd_def r1 r2 assms(3-6))
qed

subsection \<open>The validation status\<close>

lemma detect_dataset_drift_prefix:
  "detect_dataset_drift w cfg base cur t s = (Inr flag, s') \<Longrightarrow> prefix s s'"
  by (auto simp: detect_dataset_drift_Inr)

text \<open>C1: in a run of \<^verbatim>\<open>initiate_data_validation\<close> that returns an artifact, the four structural checks are all evaluated, each on the trace the previous one left, whatever the earlier ones returned; the status of the artifact is true exactly when all four returned true; and the status is the same under any other outcome of the statistical test.\<close>

theorem validation_status_iff_all_checks:
  assumes "initiate_data_validation w cfg schema ing s = (Inr art, s')"
  shows "\<exists>train test a s1 b s2 c s3 d s4.
      read_csv w (trained_file_path ing) = Inr train \<and>
      read_csv w (test_file_path ing) = Inr test \<and>
      validate_number_of_columns schema train s = (Inr a, s1) \<and>
      validate_number_of_columns schema test s1 = (Inr b, s2) \<and>
      is_numerical_column_exist schema train s2 = (Inr c, s3) \<and>
      is_numerical_column_exist schema test s3 = (Inr d, s4) \<and>
      prefix s4 s' \<and>
      (validation_status art \<longleftrightarrow> a \<and> b \<and> c \<and> d) \<and>
      (\<forall>k art2 s2'.
          initiate_data_validation (w\<lparr>ks_2samp := k\<rparr>) cfg schema ing s = (Inr art2, s2') \<longrightarrow>
          validation_status art2 = validation_status art)"
proof -
  from assms obtain train test a s1 b s2 c s3 d s4 s5 where
    rd: "read_csv w (trained_file_path ing) = Inr train"
        "read_csv w (test_file_path ing) = Inr test"
    and ch: "validate_number_of_columns schema train s = (Inr a, s1)"
        "validate_number_of_columns schema test s1 = (Inr b, s2)"
        "is_numerical_column_exist schema train s2 = (Inr c, s3)"
        "is_numerical_column_exist schema test s3 = (Inr d, s4)"
    and dr: "if a \<and> b \<and> c \<and> d
             then \<exists>flag. detect_dataset_drift w cfg train test default_threshold s4 = (Inr flag, s5)
             else s5 = s4"
    and ps: "persist_phase w cfg train test (a \<and> b \<and> c \<and> d) s5 = (Inr art, s')"
    unfolding initiate_data_validation_Inr by blast
  have "prefix s4 s5"
    using dr by (auto split: if_splits dest: detect_dataset_drift_prefix)
  moreover have "prefix s5 s'"
    using ps by (simp add: persist_phase_Inr)
  ultimately have pre: "prefix s4 s'" by (rule prefix_order.trans)
  have st: "validation_status art \<longleftrightarrow> a \<and> b \<and> c \<and> d"
    using ps by (simp add: persist_phase_Inr artifact_of_def)
  have other: "validation_status art2 = validation_status art"
    if "initiate_data_validation (w\<lparr>ks_2samp := k\<rparr>) cfg schema ing s = (Inr art2, s2')"
    for k art2 s2'
  proof -
    from that obtain t5 where
      "persist_phase (w\<lparr>ks_2samp := k\<rparr>) cfg train test (a \<and> b \<and> c \<and> d) t5 = (Inr art2, s2')"
      unfolding initiate_data_validation_Inr using rd ch by auto
    then show ?thesis using st by (simp add: persist_phase_Inr artifact_of_def)
  qed
  from rd ch pre st other show ?thesis by blast
qed

subsection \<open>The drift report\<close>

lemma drift_loop_distinct:
  "drift_loop w base cur t cols (d0, r0) = Inr (d, r) \<Longrightarrow> distinct (map fst r0) \<Longrightarrow>
   distinct (map fst r)"
proof (induction cols arbitrary: d0 r0)
  case Nil
  then show ?case by simp
next
  case (Cons c cols)
  from Cons.prems(1) obtain d1 e1 where
    "drift_loop w base cur t cols (d1, AList.update c e1 r0) = Inr (d, r)"
    by (auto split: sum.splits if_splits)
  from Cons.IH[OF this] Cons.prems(2) show ?case
    by (simp add: distinct_update)
qed

lemma drift_loop_report:
  assumes "drift_loop w base cur t cols (False, []) = Inr (flag, report)"
  shows "distinct (map fst report)"
    and "set (map fst report) = set cols"
    and "\<forall>c\<in>set cols. \<exists>d1 d2 p. getitem base c = Inr d1 \<and> getitem cur c = Inr d2 \<and>
           ks_2samp w d1 d2 = Inr p \<and> map_of report c = Some \<lparr>p_value = p, drift_status = (\<not> float_ge p t)\<rparr>"
    and "\<forall>(c, e)\<in>set report. c \<in> set cols \<and> drift_status e = (\<not> float_ge (p_value e) t)"
    and "flag \<longleftrightarrow> (\<exists>(c, e)\<in>set report. drift_status e)"
proof -
  note E = drift_loop_entries[OF assms]
  show D: "distinct (map fst report)"
    using drift_loop_distinct[OF assms] by simp
  show A: "\<forall>c\<in>set cols. \<exists>d1 d2 p. getitem base c = Inr d1 \<and> getitem cur c = Inr d2 \<and>
           ks_2samp w d1 d2 = Inr p \<and> map_of report c = Some \<lparr>p_value = p, drift_status = (\<not> float_ge p t)\<rparr>"
    using E by blast
  have none: "c \<notin> set cols \<Longrightarrow> map_of report c = None" for c
    using E by simp
  have sub: "c \<in> set cols" if "(c, e) \<in> set report" for c e
  proof (rule ccontr)
    assume "c \<notin> set cols"
    then have "map_of report c = None" by (rule none)
    moreover have "map_of report c = Some e"
      using D that by (rule map_of_is_SomeI)
    ultimately show False by simp
  qed
  show "set (map fst report) = set cols"
  proof
    show "set (map fst report) \<subseteq> set cols" using sub by auto
    show "set cols \<subseteq> set (map fst report)"
    proof
      fix c assume "c \<in> set cols"
      with A obtain e where "map_of report c = Some e" by blast
      then have "(c, e) \<in> set report" by (rule map_of_SomeD)
      then show "c \<in> set (map fst report)" by force
    qed
  qed
  show B: "\<forall>(c, e)\<in>set report. c \<in> set cols \<and> drift_status e = (\<not> float_ge (p_value e) t)"
  proof (clarify, rule conjI)
    fix c e assume ce: "(c, e) \<in> set report"
    show "c \<in> set cols" using ce by (rule sub)
    then obtain p where "map_of report c = Some \<lparr>p_value = p, drift_status = (\<not> float_ge p t)\<rparr>"
      using A by blast
    moreover have "map_of report c = Some e"
      using D ce by (rule map_of_is_SomeI)
    ultimately have "e = \<lparr>p_value = p, drift_status = (\<not> float_ge p t)\<rparr>" by simp
    then show "drift_status e = (\<not> float_ge (p_value e) t)" by simp
  qed
  show "flag \<longleftrightarrow> (\<exists>(c, e)\<in>set report. drift_status e)"
  proof
    assume flag
    with E obtain c e where "c \<in> set cols" "map_of report c = Some e" "drift_status e" by auto
    then have "(c, e) \<in> set report" by (auto dest: map_of_SomeD)
    with \<open>drift_status e\<close> show "\<exists>(c, e)\<in>set report. drift_status e" by blast
  next
    assume "\<exists>(c, e)\<in>set report. drift_status e"
    then obtain c e where ce: "(c, e) \<in> set report" "drift_status e" by blast
    then have "c \<in> set cols" using sub by blast
    moreover have "map_of report c = Some e"
      using D ce(1) by (rule map_of_is_SomeI)
    ultimately show flag using E ce(2) by auto
  qed
qed




text \<open>C5: the report written by \<^verbatim>\<open>detect_dataset_drift\<close> has exactly one entry per column of the base data frame, in the order of the base data frame's columns, each entry holding the p-value exactly as the test returned it; a column of the current data frame that is not a column of the base data frame has no entry.\<close>

theorem drift_report_one_entry_per_base_column:
  assumes "detect_dataset_drift w cfg base_df current_df t s = (Inr flag, s')"
  shows "\<exists>report.
      s' = s @ [MakeDirs (dirname (cfg_drift_report_file_path cfg)),
                WriteYaml (cfg_drift_report_file_path cfg) report] \<and>
      distinct (map fst report) \<and>
      set (map fst report) = set (columns base_df) \<and>
      (distinct (columns base_df) \<longrightarrow> map fst report = columns base_df) \<and>
      (\<forall>c\<in>set (columns base_df). \<exists>d1 d2 p e.
          getitem base_df c = Inr d1 \<and> getitem current_df c = Inr d2 \<and>
          ks_2samp w d1 d2 = Inr p \<and> map_of report c = Some e \<and> p_value e = p) \<and>
      (\<forall>c\<in>set (columns current_df). c \<notin> set (columns base_df) \<longrightarrow> c \<notin> set (map fst report))"
proof -
  from assms obtain report where
    loop: "drift_loop w base_df current_df t (columns base_df) (False, []) = Inr (flag, report)"
    and tr: "s' = s @ [MakeDirs (dirname (cfg_drift_report_file_path cfg)),
                       WriteYaml (cfg_drift_report_file_path cfg) report]"
    unfolding detect_dataset_drift_Inr by blast
  note R = drift_loop_report[OF loop]
  have ord: "distinct (columns base_df) \<longrightarrow> map fst report = columns base_df"
    using drift_loop_keys[OF loop] by simp
  have ent: "\<forall>c\<in>set (columns base_df). \<exists>d1 d2 p e.
          getitem base_df c = Inr d1 \<and> getitem current_df c = Inr d2 \<and>
          ks_2samp w d1 d2 = Inr p \<and> map_of report c = Some e \<and> p_value e = p"
  proof
    fix c assume "c \<in> set (columns base_df)"
    with R(3) obtain d1 d2 p where
      "getitem base_df c = Inr d1" "getitem current_df c = Inr d2" "ks_2samp w d1 d2 = Inr p"
      "map_of report c = Some \<lparr>p_value = p, drift_status = (\<not> float_ge p t)\<rparr>" by blast
    then show "\<exists>d1 d2 p e. getitem base_df c = Inr d1 \<and> getitem current_df c = Inr d2 \<and>
          ks_2samp w d1 d2 = Inr p \<and> map_of report c = Some e \<and> p_value e = p"
      by (intro exI[of _ d1] exI[of _ d2] exI[of _ p]
          exI[of _ "\<lparr>p_value = p, drift_status = (\<not> float_ge p t)\<rparr>"]) simp
  qed
  from tr R(1) R(2) ord ent show ?thesis by auto
qed

text \<open>C9: when a column of the base data frame is not a column of the current data frame, \<^verbatim>\<open>detect_dataset_drift\<close> raises the wrapped exception and writes nothing (a \<^verbatim>\<open>KeyError\<close> for that column when it is the first one compared); it returns only when every column of the base data frame is a column of the current one.\<close>

theorem missing_column_in_current_raises:
  "(c \<in> set (columns base_df) \<and> c \<notin> set (columns current_df) \<longrightarrow>
      (\<exists>e. detect_dataset_drift w cfg base_df current_df t s = (Inl (NetworkSecurityException e), s))) \<and>
   (columns base_df = c # cs \<and> c \<notin> set (columns current_df) \<longrightarrow>
      detect_dataset_drift w cfg base_df current_df t s =
        (Inl (NetworkSecurityException (KeyError c)), s)) \<and>
   (detect_dataset_drift w cfg base_df current_df t s = (Inr flag, s') \<longrightarrow>
      set (columns base_df) \<subseteq> set (columns current_df))"
proof (intro conjI impI)
  assume "c \<in> set (columns base_df) \<and> c \<notin> set (columns current_df)"
  then obtain e where "drift_loop w base_df current_df t (columns base_df) (False, []) = Inl e"
    using drift_loop_raises by blast
  then show "\<exists>e. detect_dataset_drift w cfg base_df current_df t s =
      (Inl (NetworkSecurityException e), s)"
    by (simp add: detect_dataset_drift_def prog_defs)
next
  assume a: "columns base_df = c # cs \<and> c \<notin> set (columns current_df)"
  then have "c \<in> set (columns base_df)" by simp
  then obtain d1 where "getitem base_df c = Inr d1"
    using getitem_Inr_iff by blast
  moreover have "getitem current_df c = Inl (KeyError c)"
    using a by (auto simp: getitem_def columns_def map_of_eq_None_iff split: option.splits)
  ultimately have "drift_loop w base_df current_df t (columns base_df) (False, []) = Inl (KeyError c)"
    using a by simp
  then show "detect_dataset_drift w cfg base_df current_df t s =
      (Inl (NetworkSecurityException (KeyError c)), s)"
    by (simp add: detect_dataset_drift_def prog_defs)
next
  assume "detect_dataset_drift w cfg base_df current_df t s = (Inr flag, s')"
  then obtain report where
    loop: "drift_loop w base_df current_df t (columns base_df) (False, []) = Inr (flag, report)"
    unfolding detect_dataset_drift_Inr by blast
  show "set (columns base_df) \<subseteq> set (columns current_df)"
  proof
    fix x assume "x \<in> set (columns base_df)"
    with drift_loop_report(3)[OF loop] obtain d2 where "getitem current_df x = Inr d2" by blast
    then show "x \<in> set (columns current_df)" using getitem_Inr_iff by blast
  qed
qed

subsection \<open>Examples\<close>

lemmas demo_defs = demo_schema_def demo_df_def extra_df_def no_a_df_def base3_df_def
  current4_df_def demo_ks_def demo_world_def demo_cfg_def demo_ing_def demo_report_def

lemmas run_defs = initiate_data_validation_def detect_dataset_drift_def
  validate_number_of_columns_def is_numerical_column_exist_def read_data_def
  schema_getitem_def getitem_def columns_def dirname_def basename_def default_threshold_def
  prog_defs

theorem validate_number_of_columns_count_witness:
  "demo_schema ''columns'' = Some [''a'', ''b''] \<and>
   validate_number_of_columns demo_schema extra_df ([] :: int event list) =
     (Inr (length (columns extra_df) = length [''a'', ''b'']),
      [] @ [LogInfo (RequiredNumberOfColumns (length [''a'', ''b''])),
            LogInfo (DataframeHasColumns (length (columns extra_df)))]) \<and>
   \<not> (length (columns extra_df) = length [''a'', ''b''])"
proof -
  have h: "demo_schema ''columns'' = Some [''a'', ''b'']"
    by (simp add: demo_schema_def)
  show ?thesis
    using h validate_number_of_columns_count[where schema = demo_schema and cols = "[''a'', ''b'']"
        and D = extra_df and s = "[]"]
    by (simp add: extra_df_def columns_def)
qed

theorem is_numerical_column_exist_iff_witness:
  "demo_schema ''numerical_columns'' = Some [''a''] \<and>
   is_numerical_column_exist demo_schema no_a_df ([] :: int event list) =
     (Inr False, [LogInfo (MissingNumericalColumns [''a''])]) \<and>
   set [''a''] - set (columns no_a_df) = {''a''}"
proof -
  have h: "demo_schema ''numerical_columns'' = Some [''a'']"
    by (simp add: demo_schema_def)
  show ?thesis
    using h is_numerical_column_exist_iff[where schema = demo_schema and num = "[''a'']"
        and D = no_a_df and s = "[]"]
    by (simp add: no_a_df_def columns_def)
qed

lemma demo_drift_run:
  "detect_dataset_drift (demo_world []) demo_cfg base3_df current4_df (Finite (5 / 100)) [] =
     (Inr True, [MakeDirs ''out/drift_report'', WriteYaml ''out/drift_report/report.yaml'' demo_report])"
  by (simp add: run_defs demo_defs)

lemma demo_invalid_run:
  "initiate_data_validation
     (demo_world [(''in/train.csv'', extra_df), (''in/test.csv'', no_a_df)])
     demo_cfg demo_schema demo_ing [] =
   (Inr (artifact_of demo_cfg False),
    [LogInfo (RequiredNumberOfColumns 2), LogInfo (DataframeHasColumns 3),
     LogInfo (RequiredNumberOfColumns 2), LogInfo (DataframeHasColumns 2),
     LogInfo (MissingNumericalColumns [''a'']),
     MakeDirs ''out/invalid'',
     ToCsv ''out/invalid/train.csv'' extra_df,
     ToCsv ''out/invalid/test.csv'' no_a_df,
     LogInfo (DataValidationArtifactMsg (artifact_of demo_cfg False))])"
  by (simp add: run_defs demo_defs artifact_of_def)

text \<open>The scenario of identical train and test data: the status is true, both p-values are 1 with no drift, and the outputs go to the valid destination.\<close>

lemma demo_valid_run:
  "initiate_data_validation
     (demo_world [(''in/train.csv'', demo_df), (''in/test.csv'', demo_df)])
     demo_cfg demo_schema demo_ing [] =
   (Inr (artifact_of demo_cfg True),
    [LogInfo (RequiredNumberOfColumns 2), LogInfo (DataframeHasColumns 2),
     LogInfo (RequiredNumberOfColumns 2), LogInfo (DataframeHasColumns 2),
     MakeDirs ''out/drift_report'',
     WriteYaml ''out/drift_report/report.yaml''
       [(''a'', \<lparr>p_value = Finite 1, drift_status = False\<rparr>),
        (''b'', \<lparr>p_value = Finite 1, drift_status = False\<rparr>)],
     MakeDirs ''out/validated'',
     ToCsv ''out/validated/train.csv'' demo_df,
     ToCsv ''out/validated/test.csv'' demo_df,
     LogInfo (DataValidationArtifactMsg (artifact_of demo_cfg True))])"
  by (simp add: run_defs demo_defs artifact_of_def)

theorem validation_status_iff_all_checks_witness:
  "\<exists>art s'.
     initiate_data_validation
       (demo_world [(''in/train.csv'', extra_df), (''in/test.csv'', no_a_df)])
       demo_cfg demo_schema demo_ing [] = (Inr art, s') \<and>
     \<not> validation_status art \<and>
     validate_number_of_columns demo_schema extra_df ([] :: int event list) =
       (Inr False, [LogInfo (RequiredNumberOfColumns 2), LogInfo (DataframeHasColumns 3)]) \<and>
     (\<exists>train test a s1 b s2 c s3 d s4.
        validate_number_of_columns demo_schema train [] = (Inr a, s1) \<and>
        validate_number_of_columns demo_schema test s1 = (Inr b, s2) \<and>
        is_numerical_column_exist demo_schema train s2 = (Inr c, s3) \<and>
        is_numerical_column_exist demo_schema test s3 = (Inr d, s4) \<and>
        prefix s4 s' \<and> (validation_status art \<longleftrightarrow> a \<and> b \<and> c \<and> d))"
proof -
  have first: "validate_number_of_columns demo_schema extra_df ([] :: int event list) =
       (Inr False, [LogInfo (RequiredNumberOfColumns 2), LogInfo (DataframeHasColumns 3)])"
    by (simp add: run_defs demo_defs)
  from validation_status_iff_all_checks[OF demo_invalid_run] first demo_invalid_run
  show ?thesis
    by (simp add: artifact_of_def) blast
qed



theorem drift_report_one_entry_per_base_column_witness:
  "detect_dataset_drift (demo_world []) demo_cfg base3_df current4_df (Finite (5 / 100)) [] =
     (Inr True, [MakeDirs ''out/drift_report'',
                 WriteYaml ''out/drift_report/report.yaml'' demo_report]) \<and>
   distinct (columns base3_df) \<and>
   map fst demo_report = columns base3_df \<and>
   ''d'' \<in> set (columns current4_df) \<and> ''d'' \<notin> set (columns base3_df) \<and>
   ''d'' \<notin> set (map fst demo_report)"
proof -
  have d: "distinct (columns base3_df)"
    and m: "''d'' \<in> set (columns current4_df)" "''d'' \<notin> set (columns base3_df)"
    by (simp_all add: columns_def base3_df_def current4_df_def)
  from drift_report_one_entry_per_base_column[OF demo_drift_run] d m
  have "map fst demo_report = columns base3_df \<and> ''d'' \<notin> set (map fst demo_report)"
    by auto
  with d m demo_drift_run show ?thesis by blast
qed

theorem missing_column_in_current_raises_witness:
  "''a'' \<in> set (columns demo_df) \<and> ''a'' \<notin> set (columns no_a_df) \<and>
   columns demo_df = ''a'' # [''b''] \<and>
   detect_dataset_drift (demo_world []) demo_cfg demo_df no_a_df (Finite (5 / 100)) [] =
     (Inl (NetworkSecurityException (KeyError ''a'')), []) \<and>
   detect_dataset_drift (demo_world []) demo_cfg base3_df current4_df (Finite (5 / 100)) [] =
     (Inr True, [MakeDirs ''out/drift_report'',
                 WriteYaml ''out/drift_report/report.yaml'' demo_report]) \<and>
   set (columns base3_df) \<subseteq> set (columns current4_df)"
proof -
  have h: "''a'' \<in> set (columns demo_df)" "''a'' \<notin> set (columns no_a_df)"
    "columns demo_df = ''a'' # [''b'']"
    by (simp_all add: columns_def demo_df_def no_a_df_def)
  from missing_column_in_current_raises[where c = "''a''" and cs = "[''b'']" and base_df = demo_df
      and current_df = no_a_df and w = "demo_world []" and cfg = demo_cfg and t = "Finite (5 / 100)"
      and s = "[]"] h
  have 1: "detect_dataset_drift (demo_world []) demo_cfg demo_df no_a_df (Finite (5 / 100)) [] =
     (Inl (NetworkSecurityException (KeyError ''a'')), [])"
    by blast
  from missing_column_in_current_raises[where base_df = base3_df and current_df = current4_df
      and w = "demo_world []" and cfg = demo_cfg and t = "Finite (5 / 100)" and s = "[]" and flag = True
      and s' = "[MakeDirs ''out/drift_report'',
                 WriteYaml ''out/drift_report/report.yaml'' demo_report]"] demo_drift_run
  have 2: "set (columns base3_df) \<subseteq> set (columns current4_df)"
    by blast
  from h 1 2 demo_drift_run show ?thesis by blast
qed

subsection \<open>What a run writes\<close>

lemma written_csv_run:
  assumes "initiate_data_validation w cfg schema ing s = (Inr art, s')"
  shows "\<exists>train test ok s5.
      read_csv w (trained_file_path ing) = Inr train \<and>
      read_csv w (test_file_path ing) = Inr test \<and>
      art = artifact_of cfg ok \<and>
      prefix s s5 \<and>
      written_csv (drop (length s) s5) = [] \<and>
      (if ok then \<exists>flag s4. prefix s s4 \<and> written_yaml (drop (length s) s4) = [] \<and>
                 detect_dataset_drift w cfg train test default_threshold s4 = (Inr flag, s5)
       else written_yaml (drop (length s) s5) = []) \<and>
      s' = s5 @ [MakeDirs (out_dir cfg ok), ToCsv (train_out cfg ok) train,
                 ToCsv (test_out cfg ok) test,
                 LogInfo (DataValidationArtifactMsg (artifact_of cfg ok))]"
proof -
  from assms obtain train test a s1 b s2 c s3 d s4 s5 where
    rd: "read_csv w (trained_file_path ing) = Inr train"
        "read_csv w (test_file_path ing) = Inr test"
    and ch: "validate_number_of_columns schema train s = (Inr a, s1)"
        "validate_number_of_columns schema test s1 = (Inr b, s2)"
        "is_numerical_column_exist schema train s2 = (Inr c, s3)"
        "is_numerical_column_exist schema test s3 = (Inr d, s4)"
    and dr: "if a \<and> b \<and> c \<and> d
             then \<exists>flag. detect_dataset_drift w cfg train test default_threshold s4 = (Inr flag, s5)
             else s5 = s4"
    and ps: "persist_phase w cfg train test (a \<and> b \<and> c \<and> d) s5 = (Inr art, s')"
    unfolding initiate_data_validation_Inr by blast
  let ?ok = "a \<and> b \<and> c \<and> d"
  from checks_only_log[OF ch] obtain logs where
    logs: "s4 = s @ logs" "written_csv logs = []" "written_yaml logs = []" by blast
  have s4: "prefix s s4" "written_csv (drop (length s) s4) = []"
    "written_yaml (drop (length s) s4) = []"
    using logs by simp_all
  have s5: "prefix s s5 \<and> written_csv (drop (length s) s5) = []"
  proof (cases ?ok)
    case True
    with dr obtain flag where
      "detect_dataset_drift w cfg train test default_threshold s4 = (Inr flag, s5)" by auto
    then show ?thesis
      using logs by (auto simp: detect_dataset_drift_Inr written_csv_append)
  next
    case False
    with dr s4 show ?thesis by simp
  qed
  have drift: "if ?ok then \<exists>flag s4. prefix s s4 \<and> written_yaml (drop (length s) s4) = [] \<and>
                 detect_dataset_drift w cfg train test default_threshold s4 = (Inr flag, s5)
       else written_yaml (drop (length s) s5) = []"
    using dr s4 by (auto split: if_splits)
  from ps have "art = artifact_of cfg ?ok"
    and "s' = s5 @ [MakeDirs (out_dir cfg ?ok), ToCsv (train_out cfg ?ok) train,
                 ToCsv (test_out cfg ?ok) test,
                 LogInfo (DataValidationArtifactMsg (artifact_of cfg ?ok))]"
    by (simp_all add: persist_phase_Inr)
  with rd s5 drift show ?thesis by blast
qed

lemma drop_prefix_append:
  "prefix s s5 \<Longrightarrow> drop (length s) (s5 @ xs) = drop (length s) s5 @ xs"
  by (auto simp: prefix_def)

text \<open>C3, as amended: the destination depends on the validation status alone. When the status is true the run writes exactly two CSV files, the train data frame as read to the configured valid train path and the test data frame as read to the configured valid test path, and creates the valid-data directory; when it is false, the same with the configured invalid paths and the invalid-data directory. The file names are those of the configuration.\<close>

theorem outputs_written_to_configured_paths:
  assumes "initiate_data_validation w cfg schema ing s = (Inr art, s')"
  shows "\<exists>train test.
      read_csv w (trained_file_path ing) = Inr train \<and>
      read_csv w (test_file_path ing) = Inr test \<and>
      written_csv (drop (length s) s') =
        (if validation_status art
         then [(cfg_valid_train_file_path cfg, train), (cfg_valid_test_file_path cfg, test)]
         else [(cfg_invalid_train_file_path cfg, train), (cfg_invalid_test_file_path cfg, test)]) \<and>
      MakeDirs (if validation_status art then valid_data_dir cfg else invalid_data_dir cfg)
        \<in> set (drop (length s) s')"
proof -
  from written_csv_run[OF assms] obtain train test ok s5 where
    rd: "read_csv w (trained_file_path ing) = Inr train"
        "read_csv w (test_file_path ing) = Inr test"
    and art: "art = artifact_of cfg ok"
    and s5: "prefix s s5" "written_csv (drop (length s) s5) = []"
    and s': "s' = s5 @ [MakeDirs (out_dir cfg ok), ToCsv (train_out cfg ok) train,
                 ToCsv (test_out cfg ok) test,
                 LogInfo (DataValidationArtifactMsg (artifact_of cfg ok))]"
    by blast
  have st: "validation_status art = ok" using art by (simp add: artifact_of_def)
  have ev: "drop (length s) s' = drop (length s) s5 @
      [MakeDirs (out_dir cfg ok), ToCsv (train_out cfg ok) train, ToCsv (test_out cfg ok) test,
       LogInfo (DataValidationArtifactMsg (artifact_of cfg ok))]"
    unfolding s' by (rule drop_prefix_append[OF s5(1)])
  have "written_csv (drop (length s) s') =
      [(train_out cfg ok, train), (test_out cfg ok, test)]"
    unfolding ev using s5(2) by (simp add: written_csv_append)
  moreover have "MakeDirs (out_dir cfg ok) \<in> set (drop (length s) s')"
    unfolding ev by simp
  ultimately show ?thesis
    using rd st by (auto simp: train_out_def test_out_def out_dir_def)
qed

text \<open>The output files are not named after the input files: with inputs \<^verbatim>\<open>in/sample_a.csv\<close> and \<^verbatim>\<open>in/sample_b.csv\<close> and a passing validation, the run writes \<^verbatim>\<open>out/validated/train.csv\<close> and \<^verbatim>\<open>out/validated/test.csv\<close>, the configured paths. The base names the function computes from the input paths are not used.\<close>

theorem outputs_not_under_input_basenames:
  "initiate_data_validation
     (demo_world [(''in/sample_a.csv'', demo_df), (''in/sample_b.csv'', demo_df)])
     demo_cfg demo_schema
     \<lparr>trained_file_path = ''in/sample_a.csv'', test_file_path = ''in/sample_b.csv''\<rparr> [] =
   (Inr (artifact_of demo_cfg True),
    [LogInfo (RequiredNumberOfColumns 2), LogInfo (DataframeHasColumns 2),
     LogInfo (RequiredNumberOfColumns 2), LogInfo (DataframeHasColumns 2),
     MakeDirs ''out/drift_report'',
     WriteYaml ''out/drift_report/report.yaml''
       [(''a'', \<lparr>p_value = Finite 1, drift_status = False\<rparr>),
        (''b'', \<lparr>p_value = Finite 1, drift_status = False\<rparr>)],
     MakeDirs ''out/validated'',
     ToCsv ''out/validated/train.csv'' demo_df,
     ToCsv ''out/validated/test.csv'' demo_df,
     LogInfo (DataValidationArtifactMsg (artifact_of demo_cfg True))]) \<and>
   validation_status (artifact_of demo_cfg True) \<and>
   basename ''in/sample_a.csv'' = ''sample_a.csv'' \<and>
   basename ''in/sample_b.csv'' = ''sample_b.csv'' \<and>
   basename ''out/validated/train.csv'' = ''train.csv'' \<and>
   basename ''out/validated/test.csv'' = ''test.csv'' \<and>
   ''train.csv'' \<noteq> ''sample_a.csv'' \<and> ''test.csv'' \<noteq> ''sample_b.csv''"
  by (simp add: run_defs demo_defs artifact_of_def)

lemma run_writes:
  assumes "initiate_data_validation w cfg schema ing s = (Inr art, s')"
  shows "\<exists>train test ok.
      read_csv w (trained_file_path ing) = Inr train \<and>
      read_csv w (test_file_path ing) = Inr test \<and>
      art = artifact_of cfg ok \<and>
      written_csv (drop (length s) s') = [(train_out cfg ok, train), (test_out cfg ok, test)] \<and>
      (if ok
       then \<exists>s4 flag s5 report. prefix s s4 \<and>
              detect_dataset_drift w cfg train test default_threshold s4 = (Inr flag, s5) \<and>
              prefix s5 s' \<and>
              written_yaml (drop (length s) s') = [(cfg_drift_report_file_path cfg, report)]
       else written_yaml (drop (length s) s') = [])"
proof -
  from written_csv_run[OF assms] obtain train test ok s5 where
    rd: "read_csv w (trained_file_path ing) = Inr train"
        "read_csv w (test_file_path ing) = Inr test"
    and art: "art = artifact_of cfg ok"
    and s5: "prefix s s5" "written_csv (drop (length s) s5) = []"
    and dr: "if ok then \<exists>flag s4. prefix s s4 \<and> written_yaml (drop (length s) s4) = [] \<and>
                 detect_dataset_drift w cfg train test default_threshold s4 = (Inr flag, s5)
             else written_yaml (drop (length s) s5) = []"
    and s': "s' = s5 @ [MakeDirs (out_dir cfg ok), ToCsv (train_out cfg ok) train,
                 ToCsv (test_out cfg ok) test,
                 LogInfo (DataValidationArtifactMsg (artifact_of cfg ok))]"
    by blast
  have ev: "drop (length s) s' = drop (length s) s5 @
      [MakeDirs (out_dir cfg ok), ToCsv (train_out cfg ok) train, ToCsv (test_out cfg ok) test,
       LogInfo (DataValidationArtifactMsg (artifact_of cfg ok))]"
    unfolding s' by (rule drop_prefix_append[OF s5(1)])
  have csv: "written_csv (drop (length s) s') =
      [(train_out cfg ok, train), (test_out cfg ok, test)]"
    unfolding ev using s5(2) by (simp add: written_csv_append)
  have yaml: "written_yaml (drop (length s) s') = written_yaml (drop (length s) s5)"
    unfolding ev by (simp add: written_yaml_append)
  have pre: "prefix s5 s'" unfolding s' by simp
  have drift: "if ok
       then \<exists>s4 flag s5 report. prefix s s4 \<and>
              detect_dataset_drift w cfg train test default_threshold s4 = (Inr flag, s5) \<and>
              prefix s5 s' \<and>
              written_yaml (drop (length s) s') = [(cfg_drift_report_file_path cfg, report)]
       else written_yaml (drop (length s) s') = []"
  proof (cases ok)
    case True
    with dr obtain flag s4 where
      s4: "prefix s s4" "written_yaml (drop (length s) s4) = []"
      and det: "detect_dataset_drift w cfg train test default_threshold s4 = (Inr flag, s5)"
      by auto
    from det obtain report where
      "s5 = s4 @ [MakeDirs (dirname (cfg_drift_report_file_path cfg)),
                  WriteYaml (cfg_drift_report_file_path cfg) report]"
      unfolding detect_dataset_drift_Inr by blast
    then have "drop (length s) s5 = drop (length s) s4 @
        [MakeDirs (dirname (cfg_drift_report_file_path cfg)),
         WriteYaml (cfg_drift_report_file_path cfg) report]"
      using drop_prefix_append[OF s4(1)] by simp
    then have "written_yaml (drop (length s) s5) = [(cfg_drift_report_file_path cfg, report)]"
      using s4(2) by (simp add: written_yaml_append)
    with True s4(1) det pre yaml show ?thesis by auto
  next
    case False
    with dr yaml show ?thesis by simp
  qed
  from rd art csv drift show ?thesis by blast
qed

text \<open>C4: in a run that returns an artifact, when the validation status is true the drift detector has run on the train and test data frames (train as base, with the default threshold) and exactly one drift report was written, at the configured path; when the status is false no drift report is written and the run does not depend on the statistical test at all: under any other test the run is the same.\<close>

theorem drift_detection_iff_validation_status:
  assumes "initiate_data_validation w cfg schema ing s = (Inr art, s')"
  shows "\<exists>train test.
      read_csv w (trained_file_path ing) = Inr train \<and>
      read_csv w (test_file_path ing) = Inr test \<and>
      (if validation_status art
       then \<exists>s4 flag s5 report. prefix s s4 \<and>
              detect_dataset_drift w cfg train test default_threshold s4 = (Inr flag, s5) \<and>
              prefix s5 s' \<and>
              written_yaml (drop (length s) s') = [(cfg_drift_report_file_path cfg, report)]
       else written_yaml (drop (length s) s') = [] \<and>
            (\<forall>k. initiate_data_validation (w\<lparr>ks_2samp := k\<rparr>) cfg schema ing s = (Inr art, s')))"
proof -
  from run_writes[OF assms] obtain train test ok where
    rd: "read_csv w (trained_file_path ing) = Inr train"
        "read_csv w (test_file_path ing) = Inr test"
    and art: "art = artifact_of cfg ok"
    and dr: "if ok
       then \<exists>s4 flag s5 report. prefix s s4 \<and>
              detect_dataset_drift w cfg train test default_threshold s4 = (Inr flag, s5) \<and>
              prefix s5 s' \<and>
              written_yaml (drop (length s) s') = [(cfg_drift_report_file_path cfg, report)]
       else written_yaml (drop (length s) s') = []"
    by blast
  have st: "validation_status art = ok" using art by (simp add: artifact_of_def)
  have same: "initiate_data_validation (w\<lparr>ks_2samp := k\<rparr>) cfg schema ing s = (Inr art, s')"
    if no: "\<not> validation_status art" for k
  proof -
    from assms obtain train test a s1 b s2 c s3 d s4 s5 where
      *: "read_csv w (trained_file_path ing) = Inr train"
        "read_csv w (test_file_path ing) = Inr test"
        "validate_number_of_columns schema train s = (Inr a, s1)"
        "validate_number_of_columns schema test s1 = (Inr b, s2)"
        "is_numerical_column_exist schema train s2 = (Inr c, s3)"
        "is_numerical_column_exist schema test s3 = (Inr d, s4)"
      and dr: "if a \<and> b \<and> c \<and> d
             then \<exists>flag. detect_dataset_drift w cfg train test default_threshold s4 = (Inr flag, s5)
             else s5 = s4"
      and ps: "persist_phase w cfg train test (a \<and> b \<and> c \<and> d) s5 = (Inr art, s')"
      unfolding initiate_data_validation_Inr by blast
    from ps no have nok: "\<not> (a \<and> b \<and> c \<and> d)"
      by (auto simp: persist_phase_Inr artifact_of_def)
    with dr have s5: "s5 = s4" by simp
    have ps': "persist_phase (w\<lparr>ks_2samp := k\<rparr>) cfg train test False s4 = (Inr art, s')"
      using ps s5 nok by (simp add: persist_phase_Inr)
    have rd': "read_csv (w\<lparr>ks_2samp := k\<rparr>) (trained_file_path ing) = Inr train"
      "read_csv (w\<lparr>ks_2samp := k\<rparr>) (test_file_path ing) = Inr test"
      using *(1,2) by simp_all
    have "initiate_data_validation (w\<lparr>ks_2samp := k\<rparr>) cfg schema ing s =
        try_except (bnd (drift_phase (w\<lparr>ks_2samp := k\<rparr>) cfg train test False) (\<lambda>_.
                    persist_phase (w\<lparr>ks_2samp := k\<rparr>) cfg train test False)) s4"
      using initiate_data_validation_after_checks[OF rd' *(3-6), of cfg] nok by simp
    also have "\<dots> = (Inr art, s')"
      by (simp add: drift_phase_def bnd_def ret_def try_except_def ps')
    finally show ?thesis .
  qed
  show ?thesis
  proof (cases ok)
    case True
    with dr st rd show ?thesis by auto
  next
    case False
    with st have no: "\<not> validation_status art" by simp
    from False dr have "written_yaml (drop (length s) s') = []" by simp
    with no same rd show ?thesis by simp
  qed
qed

text \<open>C10: the artifact returned always carries the five configured paths, whatever the validation status. With configured valid and drift-report paths different from the configured invalid paths: when the status is false the files written by the run are exactly the two invalid paths, so the valid paths and the drift report path of the artifact name files the run did not write; when the status is true the files written are exactly the two valid paths and the drift report, and the invalid paths name files the run did not write.\<close>

theorem artifact_fields_always_configured:
  assumes "initiate_data_validation w cfg schema ing s = (Inr art, s')"
    and "{cfg_valid_train_file_path cfg, cfg_valid_test_file_path cfg,
          cfg_drift_report_file_path cfg} \<inter>
         {cfg_invalid_train_file_path cfg, cfg_invalid_test_file_path cfg} = {}"
  shows "valid_train_file_path art = cfg_valid_train_file_path cfg \<and>
     valid_test_file_path art = cfg_valid_test_file_path cfg \<and>
     invalid_train_file_path art = cfg_invalid_train_file_path cfg \<and>
     invalid_test_file_path art = cfg_invalid_test_file_path cfg \<and>
     drift_report_file_path art = cfg_drift_report_file_path cfg \<and>
     (if validation_status art
      then set (written_paths (drop (length s) s')) =
             {valid_train_file_path art, valid_test_file_path art, drift_report_file_path art} \<and>
           invalid_train_file_path art \<notin> set (written_paths (drop (length s) s')) \<and>
           invalid_test_file_path art \<notin> set (written_paths (drop (length s) s'))
      else set (written_paths (drop (length s) s')) =
             {invalid_train_file_path art, invalid_test_file_path art} \<and>
           valid_train_file_path art \<notin> set (written_paths (drop (length s) s')) \<and>
           valid_test_file_path art \<notin> set (written_paths (drop (length s) s')) \<and>
           drift_report_file_path art \<notin> set (written_paths (drop (length s) s')))"
proof -
  from run_writes[OF assms(1)] obtain train test ok where
    art: "art = artifact_of cfg ok"
    and csv: "written_csv (drop (length s) s') =
                [(train_out cfg ok, train), (test_out cfg ok, test)]"
    and dr: "if ok
       then \<exists>s4 flag s5 report. prefix s s4 \<and>
              detect_dataset_drift w cfg train test default_threshold s4 = (Inr flag, s5) \<and>
              prefix s5 s' \<and>
              written_yaml (drop (length s) s') = [(cfg_drift_report_file_path cfg, report)]
       else written_yaml (drop (length s) s') = []"
    by blast
  have neq: "cfg_invalid_train_file_path cfg \<noteq> cfg_valid_train_file_path cfg"
    "cfg_invalid_train_file_path cfg \<noteq> cfg_valid_test_file_path cfg"
    "cfg_invalid_train_file_path cfg \<noteq> cfg_drift_report_file_path cfg"
    "cfg_invalid_test_file_path cfg \<noteq> cfg_valid_train_file_path cfg"
    "cfg_invalid_test_file_path cfg \<noteq> cfg_valid_test_file_path cfg"
    "cfg_invalid_test_file_path cfg \<noteq> cfg_drift_report_file_path cfg"
    using assms(2) by blast+
  have fields: "valid_train_file_path art = cfg_valid_train_file_path cfg"
    "valid_test_file_path art = cfg_valid_test_file_path cfg"
    "invalid_train_file_path art = cfg_invalid_train_file_path cfg"
    "invalid_test_file_path art = cfg_invalid_test_file_path cfg"
    "drift_report_file_path art = cfg_drift_report_file_path cfg"
    "validation_status art = ok"
    using art by (simp_all add: artifact_of_def)
  show ?thesis
  proof (cases ok)
    case True
    with dr obtain report where
      "written_yaml (drop (length s) s') = [(cfg_drift_report_file_path cfg, report)]" by auto
    with True csv have "written_paths (drop (length s) s') =
        [cfg_valid_train_file_path cfg, cfg_valid_test_file_path cfg,
         cfg_drift_report_file_path cfg]"
      by (simp add: written_paths_def train_out_def test_out_def)
    with True neq show ?thesis unfolding fields by simp
  next
    case False
    with dr have "written_yaml (drop (length s) s') = []" by simp
    with False csv have "written_paths (drop (length s) s') =
        [cfg_invalid_train_file_path cfg, cfg_invalid_test_file_path cfg]"
      by (simp add: written_paths_def train_out_def test_out_def)
    with False neq show ?thesis unfolding fields by (simp add: neq[symmetric])
  qed
qed

subsection \<open>Errors\<close>

lemma try_except_Inl:
  "try_except m s = (Inl e, s') \<Longrightarrow> \<exists>c. e = NetworkSecurityException c \<and> m s = (Inl c, s')"
  by (auto simp: try_except_def split: prod.splits sum.splits)

lemma initiate_data_validation_outcome:
  "(\<exists>art s'. initiate_data_validation w cfg schema ing s = (Inr art, s') \<and>
      art = \<lparr>validation_status = validation_status art,
             valid_train_file_path = cfg_valid_train_file_path cfg,
             valid_test_file_path = cfg_valid_test_file_path cfg,
             invalid_train_file_path = cfg_invalid_train_file_path cfg,
             invalid_test_file_path = cfg_invalid_test_file_path cfg,
             drift_report_file_path = cfg_drift_report_file_path cfg\<rparr> \<and>
      (\<exists>train test.
          read_csv w (trained_file_path ing) = Inr train \<and>
          read_csv w (test_file_path ing) = Inr test \<and>
          written_csv (drop (length s) s') =
            [(train_out cfg (validation_status art), train),
             (test_out cfg (validation_status art), test)])) \<or>
   (\<exists>e s'. initiate_data_validation w cfg schema ing s = (Inl (NetworkSecurityException e), s'))"
proof (cases "initiate_data_validation w cfg schema ing s")
  case (Pair r s')
  show ?thesis
  proof (cases r)
    case (Inl e)
    with Pair obtain c where "e = NetworkSecurityException c"
      unfolding initiate_data_validation_def by (blast dest: try_except_Inl)
    with Pair Inl show ?thesis by blast
  next
    case (Inr art)
    with Pair have run: "initiate_data_validation w cfg schema ing s = (Inr art, s')" by simp
    from run_writes[OF run] obtain train test ok where
      "read_csv w (trained_file_path ing) = Inr train"
      "read_csv w (test_file_path ing) = Inr test"
      "art = artifact_of cfg ok"
      "written_csv (drop (length s) s') = [(train_out cfg ok, train), (test_out cfg ok, test)]"
      by blast
    then have "art = \<lparr>validation_status = validation_status art,
             valid_train_file_path = cfg_valid_train_file_path cfg,
             valid_test_file_path = cfg_valid_test_file_path cfg,
             invalid_train_file_path = cfg_invalid_train_file_path cfg,
             invalid_test_file_path = cfg_invalid_test_file_path cfg,
             drift_report_file_path = cfg_drift_report_file_path cfg\<rparr> \<and>
      (\<exists>train test.
          read_csv w (trained_file_path ing) = Inr train \<and>
          read_csv w (test_file_path ing) = Inr test \<and>
          written_csv (drop (length s) s') =
            [(train_out cfg (validation_status art), train),
             (test_out cfg (validation_status art), test)])"
      by (auto simp: artifact_of_def)
    with run show ?thesis by blast
  qed
qed

lemma detect_dataset_drift_outcome:
  "(\<exists>flag s'. detect_dataset_drift w cfg base cur t s = (Inr flag, s')) \<or>
   (\<exists>e s'. detect_dataset_drift w cfg base cur t s = (Inl (NetworkSecurityException e), s'))"
proof (cases "detect_dataset_drift w cfg base cur t s")
  case (Pair r s')
  show ?thesis
  proof (cases r)
    case (Inl e)
    with Pair obtain c where "e = NetworkSecurityException c"
      unfolding detect_dataset_drift_def by (blast dest: try_except_Inl)
    with Pair Inl show ?thesis by blast
  next
    case (Inr flag)
    with Pair show ?thesis by blast
  qed
qed

lemma read_train_fails:
  "read_csv w (trained_file_path ing) = Inl e \<Longrightarrow>
   initiate_data_validation w cfg schema ing s =
     (Inl (NetworkSecurityException (NetworkSecurityException e)), s)"
  unfolding initiate_data_validation_phases
  by (simp add: try_except_def bnd_def read_data_eq)

lemma read_test_fails:
  "read_csv w (trained_file_path ing) = Inr train \<Longrightarrow>
   read_csv w (test_file_path ing) = Inl e \<Longrightarrow>
   initiate_data_validation w cfg schema ing s =
     (Inl (NetworkSecurityException (NetworkSecurityException e)), s)"
  unfolding initiate_data_validation_phases
  by (simp add: try_except_def bnd_def read_data_eq)

lemma schema_columns_missing:
  "read_csv w (trained_file_path ing) = Inr train \<Longrightarrow>
   read_csv w (test_file_path ing) = Inr test \<Longrightarrow>
   schema ''columns'' = None \<Longrightarrow>
   initiate_data_validation w cfg schema ing s =
     (Inl (NetworkSecurityException (NetworkSecurityException (KeyError ''columns''))), s)"
  unfolding initiate_data_validation_phases
  by (simp add: try_except_def bnd_def read_data_eq validate_number_of_columns_keyerror)

lemma drift_loop_fails:
  "drift_loop w base cur t (columns base) (False, []) = Inl e \<Longrightarrow>
   detect_dataset_drift w cfg base cur t s = (Inl (NetworkSecurityException e), s)"
  by (simp add: detect_dataset_drift_def prog_defs)

lemma ks_fails:
  "columns base = c # cs \<Longrightarrow> getitem base c = Inr d1 \<Longrightarrow> getitem cur c = Inr d2 \<Longrightarrow>
   ks_2samp w d1 d2 = Inl e \<Longrightarrow>
   detect_dataset_drift w cfg base cur t s = (Inl (NetworkSecurityException e), s)"
  by (rule drift_loop_fails) simp

lemma drift_makedirs_fails:
  "drift_loop w base cur t (columns base) (False, []) = Inr (flag, report) \<Longrightarrow>
   makedirs_error w s (dirname (cfg_drift_report_file_path cfg)) = Some e \<Longrightarrow>
   detect_dataset_drift w cfg base cur t s = (Inl (NetworkSecurityException e), s)"
  by (simp add: detect_dataset_drift_def prog_defs)

lemma drift_write_fails:
  "drift_loop w base cur t (columns base) (False, []) = Inr (flag, report) \<Longrightarrow>
   makedirs_error w s (dirname (cfg_drift_report_file_path cfg)) = None \<Longrightarrow>
   write_yaml_error w (s @ [MakeDirs (dirname (cfg_drift_report_file_path cfg))])
     (cfg_drift_report_file_path cfg) = Some e \<Longrightarrow>
   detect_dataset_drift w cfg base cur t s =
     (Inl (NetworkSecurityException e), s @ [MakeDirs (dirname (cfg_drift_report_file_path cfg))])"
  by (simp add: detect_dataset_drift_def prog_defs)

lemma persist_phase_eq:
  "persist_phase w cfg train test ok s =
     (case makedirs_error w s (out_dir cfg ok) of
        Some e \<Rightarrow> (Inl e, s)
      | None \<Rightarrow>
         (case to_csv_error w (s @ [MakeDirs (out_dir cfg ok)]) (train_out cfg ok) of
            Some e \<Rightarrow> (Inl e, s @ [MakeDirs (out_dir cfg ok)])
          | None \<Rightarrow>
             (case to_csv_error w (s @ [MakeDirs (out_dir cfg ok), ToCsv (train_out cfg ok) train])
                     (test_out cfg ok) of
                Some e \<Rightarrow> (Inl e, s @ [MakeDirs (out_dir cfg ok), ToCsv (train_out cfg ok) train])
              | None \<Rightarrow>
                 (Inr (artifact_of cfg ok),
                  s @ [MakeDirs (out_dir cfg ok), ToCsv (train_out cfg ok) train,
                       ToCsv (test_out cfg ok) test,
                       LogInfo (DataValidationArtifactMsg (artifact_of cfg ok))]))))"
  by (simp add: persist_phase_def prog_defs split: option.splits)

lemma after_checks_failures:
  assumes "read_csv w (trained_file_path ing) = Inr train"
    and "read_csv w (test_file_path ing) = Inr test"
    and "validate_number_of_columns schema train s = (Inr a, s1)"
    and "validate_number_of_columns schema test s1 = (Inr b, s2)"
    and "is_numerical_column_exist schema train s2 = (Inr c, s3)"
    and "is_numerical_column_exist schema test s3 = (Inr d, s4)"
  shows "(a \<and> b \<and> c \<and> d \<and>
          detect_dataset_drift w cfg train test default_threshold s4 = (Inl e, s5) \<longrightarrow>
          initiate_data_validation w cfg schema ing s = (Inl (NetworkSecurityException e), s5))"
    and "((if a \<and> b \<and> c \<and> d
           then \<exists>flag. detect_dataset_drift w cfg train test default_threshold s4 = (Inr flag, s5)
           else s5 = s4) \<longrightarrow>
          (makedirs_error w s5 (out_dir cfg (a \<and> b \<and> c \<and> d)) = Some e \<longrightarrow>
             initiate_data_validation w cfg schema ing s = (Inl (NetworkSecurityException e), s5)) \<and>
          (makedirs_error w s5 (out_dir cfg (a \<and> b \<and> c \<and> d)) = None \<and>
           to_csv_error w (s5 @ [MakeDirs (out_dir cfg (a \<and> b \<and> c \<and> d))])
             (train_out cfg (a \<and> b \<and> c \<and> d)) = Some e \<longrightarrow>
             initiate_data_validation w cfg schema ing s =
               (Inl (NetworkSecurityException e),
                s5 @ [MakeDirs (out_dir cfg (a \<and> b \<and> c \<and> d))])) \<and>
          (makedirs_error w s5 (out_dir cfg (a \<and> b \<and> c \<and> d)) = None \<and>
           to_csv_error w (s5 @ [MakeDirs (out_dir cfg (a \<and> b \<and> c \<and> d))])
             (train_out cfg (a \<and> b \<and> c \<and> d)) = None \<and>
           to_csv_error w (s5 @ [MakeDirs (out_dir cfg (a \<and> b \<and> c \<and> d)),
                                 ToCsv (train_out cfg (a \<and> b \<and> c \<and> d)) train])
             (test_out cfg (a \<and> b \<and> c \<and> d)) = Some e \<longrightarrow>
             initiate_data_validation w cfg schema ing s =
               (Inl (NetworkSecurityException e),
                s5 @ [MakeDirs (out_dir cfg (a \<and> b \<and> c \<and> d)),
                      ToCsv (train_out cfg (a \<and> b \<and> c \<and> d)) train])))"
proof -
  let ?ok = "a \<and> b \<and> c \<and> d"
  note run = initiate_data_validation_after_checks[OF assms, of cfg]
  show "(a \<and> b \<and> c \<and> d \<and>
          detect_dataset_drift w cfg train test default_threshold s4 = (Inl e, s5) \<longrightarrow>
          initiate_data_validation w cfg schema ing s = (Inl (NetworkSecurityException e), s5))"
  proof (intro impI, elim conjE)
    assume ok: a b c d
      and det: "detect_dataset_drift w cfg train test default_threshold s4 = (Inl e, s5)"
    have "drift_phase w cfg train test ?ok s4 = (Inl e, s5)"
      using ok det by (simp add: drift_phase_def bnd_def)
    then show "initiate_data_validation w cfg schema ing s = (Inl (NetworkSecurityException e), s5)"
      unfolding run by (simp add: try_except_def bnd_def)
  qed
  show "((if ?ok
           then \<exists>flag. detect_dataset_drift w cfg train test default_threshold s4 = (Inr flag, s5)
           else s5 = s4) \<longrightarrow>
          (makedirs_error w s5 (out_dir cfg ?ok) = Some e \<longrightarrow>
             initiate_data_validation w cfg schema ing s = (Inl (NetworkSecurityException e), s5)) \<and>
          (makedirs_error w s5 (out_dir cfg ?ok) = None \<and>
           to_csv_error w (s5 @ [MakeDirs (out_dir cfg ?ok)]) (train_out cfg ?ok) = Some e \<longrightarrow>
             initiate_data_validation w cfg schema ing s =
               (Inl (NetworkSecurityException e), s5 @ [MakeDirs (out_dir cfg ?ok)])) \<and>
          (makedirs_error w s5 (out_dir cfg ?ok) = None \<and>
           to_csv_error w (s5 @ [MakeDirs (out_dir cfg ?ok)]) (train_out cfg ?ok) = None \<and>
           to_csv_error w (s5 @ [MakeDirs (out_dir cfg ?ok), ToCsv (train_out cfg ?ok) train])
             (test_out cfg ?ok) = Some e \<longrightarrow>
             initiate_data_validation w cfg schema ing s =
               (Inl (NetworkSecurityException e),
                s5 @ [MakeDirs (out_dir cfg ?ok), ToCsv (train_out cfg ?ok) train])))"
  proof (intro impI)
    assume dr: "if ?ok
           then \<exists>flag. detect_dataset_drift w cfg train test default_threshold s4 = (Inr flag, s5)
           else s5 = s4"
    have "drift_phase w cfg train test ?ok s4 = (Inr (), s5)"
      using dr by (simp add: drift_phase_Inr)
    then have run': "initiate_data_validation w cfg schema ing s =
        try_except (persist_phase w cfg train test ?ok) s5"
      unfolding run by (simp add: try_except_def bnd_def)
    show "(makedirs_error w s5 (out_dir cfg ?ok) = Some e \<longrightarrow>
             initiate_data_validation w cfg schema ing s = (Inl (NetworkSecurityException e), s5)) \<and>
          (makedirs_error w s5 (out_dir cfg ?ok) = None \<and>
           to_csv_error w (s5 @ [MakeDirs (out_dir cfg ?ok)]) (train_out cfg ?ok) = Some e \<longrightarrow>
             initiate_data_validation w cfg schema ing s =
               (Inl (NetworkSecurityException e), s5 @ [MakeDirs (out_dir cfg ?ok)])) \<and>
          (makedirs_error w s5 (out_dir cfg ?ok) = None \<and>
           to_csv_error w (s5 @ [MakeDirs (out_dir cfg ?ok)]) (train_out cfg ?ok) = None \<and>
           to_csv_error w (s5 @ [MakeDirs (out_dir cfg ?ok), ToCsv (train_out cfg ?ok) train])
             (test_out cfg ?ok) = Some e \<longrightarrow>
             initiate_data_validation w cfg schema ing s =
               (Inl (NetworkSecurityException e),
                s5 @ [MakeDirs (out_dir cfg ?ok), ToCsv (train_out cfg ?ok) train]))"
      unfolding run' by (simp add: try_except_def persist_phase_eq)
  qed
qed

text \<open>C8: a run of \<^verbatim>\<open>initiate_data_validation\<close> either returns an artifact with all six fields set, after both inputs were read and both outputs written, or raises \<^verbatim>\<open>NetworkSecurityException\<close>; \<^verbatim>\<open>detect_dataset_drift\<close> either returns or raises \<^verbatim>\<open>NetworkSecurityException\<close>. Every error of a collaborator is re-raised wrapped (twice where two \<^verbatim>\<open>try\<close> blocks are crossed): a read error of the train or the test file, a missing schema key, an error of the statistical test or of the column extraction, an error creating the report's directory or writing the report, an error of the drift detector inside the run, and an error creating the output directory or writing either output file.\<close>

theorem errors_wrapped_in_network_security_exception:
  "((\<exists>art s'. initiate_data_validation w cfg schema ing s = (Inr art, s') \<and>
      art = \<lparr>validation_status = validation_status art,
             valid_train_file_path = cfg_valid_train_file_path cfg,
             valid_test_file_path = cfg_valid_test_file_path cfg,
             invalid_train_file_path = cfg_invalid_train_file_path cfg,
             invalid_test_file_path = cfg_invalid_test_file_path cfg,
             drift_report_file_path = cfg_drift_report_file_path cfg\<rparr> \<and>
      (\<exists>train test.
          read_csv w (trained_file_path ing) = Inr train \<and>
          read_csv w (test_file_path ing) = Inr test \<and>
          written_csv (drop (length s) s') =
            [(train_out cfg (validation_status art), train),
             (test_out cfg (validation_status art), test)])) \<or>
    (\<exists>e s'. initiate_data_validation w cfg schema ing s =
               (Inl (NetworkSecurityException e), s'))) \<and>
   ((\<exists>flag s'. detect_dataset_drift w cfg base_df current_df t s = (Inr flag, s')) \<or>
    (\<exists>e s'. detect_dataset_drift w cfg base_df current_df t s =
               (Inl (NetworkSecurityException e), s'))) \<and>
   (read_csv w (trained_file_path ing) = Inl e \<longrightarrow>
      initiate_data_validation w cfg schema ing s =
        (Inl (NetworkSecurityException (NetworkSecurityException e)), s)) \<and>
   (read_csv w (trained_file_path ing) = Inr train \<and>
    read_csv w (test_file_path ing) = Inl e \<longrightarrow>
      initiate_data_validation w cfg schema ing s =
        (Inl (NetworkSecurityException (NetworkSecurityException e)), s)) \<and>
   (read_csv w (trained_file_path ing) = Inr train \<and>
    read_csv w (test_file_path ing) = Inr test \<and> schema ''columns'' = None \<longrightarrow>
      initiate_data_validation w cfg schema ing s =
        (Inl (NetworkSecurityException (NetworkSecurityException (KeyError ''columns''))), s)) \<and>
   (columns base_df = col # cols \<and> getitem base_df col = Inr d1 \<and>
    getitem current_df col = Inr d2 \<and> ks_2samp w d1 d2 = Inl e \<longrightarrow>
      detect_dataset_drift w cfg base_df current_df t s = (Inl (NetworkSecurityException e), s)) \<and>
   (drift_loop w base_df current_df t (columns base_df) (False, []) = Inl e \<longrightarrow>
      detect_dataset_drift w cfg base_df current_df t s = (Inl (NetworkSecurityException e), s)) \<and>
   (drift_loop w base_df current_df t (columns base_df) (False, []) = Inr (flag, report) \<and>
    makedirs_error w s (dirname (cfg_drift_report_file_path cfg)) = Some e \<longrightarrow>
      detect_dataset_drift w cfg base_df current_df t s = (Inl (NetworkSecurityException e), s)) \<and>
   (drift_loop w base_df current_df t (columns base_df) (False, []) = Inr (flag, report) \<and>
    makedirs_error w s (dirname (cfg_drift_report_file_path cfg)) = None \<and>
    write_yaml_error w (s @ [MakeDirs (dirname (cfg_drift_report_file_path cfg))])
      (cfg_drift_report_file_path cfg) = Some e \<longrightarrow>
      detect_dataset_drift w cfg base_df current_df t s =
        (Inl (NetworkSecurityException e),
         s @ [MakeDirs (dirname (cfg_drift_report_file_path cfg))])) \<and>
   (read_csv w (trained_file_path ing) = Inr train \<and>
    read_csv w (test_file_path ing) = Inr test \<and>
    validate_number_of_columns schema train s = (Inr a, s1) \<and>
    validate_number_of_columns schema test s1 = (Inr b, s2) \<and>
    is_numerical_column_exist schema train s2 = (Inr c, s3) \<and>
    is_numerical_column_exist schema test s3 = (Inr d, s4) \<longrightarrow>
      (a \<and> b \<and> c \<and> d \<and>
       detect_dataset_drift w cfg train test default_threshold s4 = (Inl e, s5) \<longrightarrow>
         initiate_data_validation w cfg schema ing s = (Inl (NetworkSecurityException e), s5)) \<and>
      ((if a \<and> b \<and> c \<and> d
        then \<exists>flag. detect_dataset_drift w cfg train test default_threshold s4 = (Inr flag, s5)
        else s5 = s4) \<longrightarrow>
         (makedirs_error w s5 (out_dir cfg (a \<and> b \<and> c \<and> d)) = Some e \<longrightarrow>
            initiate_data_validation w cfg schema ing s = (Inl (NetworkSecurityException e), s5)) \<and>
         (makedirs_error w s5 (out_dir cfg (a \<and> b \<and> c \<and> d)) = None \<and>
          to_csv_error w (s5 @ [MakeDirs (out_dir cfg (a \<and> b \<and> c \<and> d))])
            (train_out cfg (a \<and> b \<and> c \<and> d)) = Some e \<longrightarrow>
            initiate_data_validation w cfg schema ing s =
              (Inl (NetworkSecurityException e),
               s5 @ [MakeDirs (out_dir cfg (a \<and> b \<and> c \<and> d))])) \<and>
         (makedirs_error w s5 (out_dir cfg (a \<and> b \<and> c \<and> d)) = None \<and>
          to_csv_error w (s5 @ [MakeDirs (out_dir cfg (a \<and> b \<and> c \<and> d))])
            (train_out cfg (a \<and> b \<and> c \<and> d)) = None \<and>
          to_csv_error w (s5 @ [MakeDirs (out_dir cfg (a \<and> b \<and> c \<and> d)),
                                ToCsv (train_out cfg (a \<and> b \<and> c \<and> d)) train])
            (test_out cfg (a \<and> b \<and> c \<and> d)) = Some e \<longrightarrow>
            initiate_data_validation w cfg schema ing s =
              (Inl (NetworkSecurityException e),
               s5 @ [MakeDirs (out_dir cfg (a \<and> b \<and> c \<and> d)),
                     ToCsv (train_out cfg (a \<and> b \<and> c \<and> d)) train]))))"
proof (intro conjI)
  show "read_csv w (trained_file_path ing) = Inr train \<and>
    read_csv w (test_file_path ing) = Inr test \<and>
    validate_number_of_columns schema train s = (Inr a, s1) \<and>
    validate_number_of_columns schema test s1 = (Inr b, s2) \<and>
    is_numerical_column_exist schema train s2 = (Inr c, s3) \<and>
    is_numerical_column_exist schema test s3 = (Inr d, s4) \<longrightarrow>
      (a \<and> b \<and> c \<and> d \<and>
       detect_dataset_drift w cfg train test default_threshold s4 = (Inl e, s5) \<longrightarrow>
         initiate_data_validation w cfg schema ing s = (Inl (NetworkSecurityException e), s5)) \<and>
      ((if a \<and> b \<and> c \<and> d
        then \<exists>flag. detect_dataset_drift w cfg train test default_threshold s4 = (Inr flag, s5)
        else s5 = s4) \<longrightarrow>
         (makedirs_error w s5 (out_dir cfg (a \<and> b \<and> c \<and> d)) = Some e \<longrightarrow>
            initiate_data_validation w cfg schema ing s = (Inl (NetworkSecurityException e), s5)) \<and>
         (makedirs_error w s5 (out_dir cfg (a \<and> b \<and> c \<and> d)) = None \<and>
          to_csv_error w (s5 @ [MakeDirs (out_dir cfg (a \<and> b \<and> c \<and> d))])
            (train_out cfg (a \<and> b \<and> c \<and> d)) = Some e \<longrightarrow>
            initiate_data_validation w cfg schema ing s =
              (Inl (NetworkSecurityException e),
               s5 @ [MakeDirs (out_dir cfg (a \<and> b \<and> c \<and> d))])) \<and>
         (makedirs_error w s5 (out_dir cfg (a \<and> b \<and> c \<and> d)) = None \<and>
          to_csv_error w (s5 @ [MakeDirs (out_dir cfg (a \<and> b \<and> c \<and> d))])
            (train_out cfg (a \<and> b \<and> c \<and> d)) = None \<and>
          to_csv_error w (s5 @ [MakeDirs (out_dir cfg (a \<and> b \<and> c \<and> d)),
                                ToCsv (train_out cfg (a \<and> b \<and> c \<and> d)) train])
            (test_out cfg (a \<and> b \<and> c \<and> d)) = Some e \<longrightarrow>
            initiate_data_validation w cfg schema ing s =
              (Inl (NetworkSecurityException e),
               s5 @ [MakeDirs (out_dir cfg (a \<and> b \<and> c \<and> d)),
                     ToCsv (train_out cfg (a \<and> b \<and> c \<and> d)) train])))"
  proof (intro impI, elim conjE, rule conjI)
    assume h: "read_csv w (trained_file_path ing) = Inr train"
      "read_csv w (test_file_path ing) = Inr test"
      "validate_number_of_columns schema train s = (Inr a, s1)"
      "validate_number_of_columns schema test s1 = (Inr b, s2)"
      "is_numerical_column_exist schema train s2 = (Inr c, s3)"
      "is_numerical_column_exist schema test s3 = (Inr d, s4)"
    show "a \<and> b \<and> c \<and> d \<and>
       detect_dataset_drift w cfg train test default_threshold s4 = (Inl e, s5) \<longrightarrow>
         initiate_data_validation w cfg schema ing s = (Inl (NetworkSecurityException e), s5)"
      by (rule after_checks_failures(1)[OF h])
    show "(if a \<and> b \<and> c \<and> d
        then \<exists>flag. detect_dataset_drift w cfg train test default_threshold s4 = (Inr flag, s5)
        else s5 = s4) \<longrightarrow>
         (makedirs_error w s5 (out_dir cfg (a \<and> b \<and> c \<and> d)) = Some e \<longrightarrow>
            initiate_data_validation w cfg schema ing s = (Inl (NetworkSecurityException e), s5)) \<and>
         (makedirs_error w s5 (out_dir cfg (a \<and> b \<and> c \<and> d)) = None \<and>
          to_csv_error w (s5 @ [MakeDirs (out_dir cfg (a \<and> b \<and> c \<and> d))])
            (train_out cfg (a \<and> b \<and> c \<and> d)) = Some e \<longrightarrow>
            initiate_data_validation w cfg schema ing s =
              (Inl (NetworkSecurityException e),
               s5 @ [MakeDirs (out_dir cfg (a \<and> b \<and> c \<and> d))])) \<and>
         (makedirs_error w s5 (out_dir cfg (a \<and> b \<and> c \<and> d)) = None \<and>
          to_csv_error w (s5 @ [MakeDirs (out_dir cfg (a \<and> b \<and> c \<and> d))])
            (train_out cfg (a \<and> b \<and> c \<and> d)) = None \<and>
          to_csv_error w (s5 @ [MakeDirs (out_dir cfg (a \<and> b \<and> c \<and> d)),
                                ToCsv (train_out cfg (a \<and> b \<and> c \<and> d)) train])
            (test_out cfg (a \<and> b \<and> c \<and> d)) = Some e \<longrightarrow>
            initiate_data_validation w cfg schema ing s =
              (Inl (NetworkSecurityException e),
               s5 @ [MakeDirs (out_dir cfg (a \<and> b \<and> c \<and> d)),
                     ToCsv (train_out cfg (a \<and> b \<and> c \<and> d)) train]))"
      by (rule after_checks_failures(2)[OF h])
  qed
next
  show "(\<exists>art s'. initiate_data_validation w cfg schema ing s = (Inr art, s') \<and>
      art = \<lparr>validation_status = validation_status art,
             valid_train_file_path = cfg_valid_train_file_path cfg,
             valid_test_file_path = cfg_valid_test_file_path cfg,
             invalid_train_file_path = cfg_invalid_train_file_path cfg,
             invalid_test_file_path = cfg_invalid_test_file_path cfg,
             drift_report_file_path = cfg_drift_report_file_path cfg\<rparr> \<and>
      (\<exists>train test.
          read_csv w (trained_file_path ing) = Inr train \<and>
          read_csv w (test_file_path ing) = Inr test \<and>
          written_csv (drop (length s) s') =
            [(train_out cfg (validation_status art), train),
             (test_out cfg (validation_status art), test)])) \<or>
    (\<exists>e s'. initiate_data_validation w cfg schema ing s =
               (Inl (NetworkSecurityException e), s'))"
    by (rule initiate_data_validation_outcome)
next
  show "(\<exists>flag s'. detect_dataset_drift w cfg base_df current_df t s = (Inr flag, s')) \<or>
    (\<exists>e s'. detect_dataset_drift w cfg base_df current_df t s =
               (Inl (NetworkSecurityException e), s'))"
    by (rule detect_dataset_drift_outcome)
next
  show "read_csv w (trained_file_path ing) = Inl e \<longrightarrow>
      initiate_data_validation w cfg schema ing s =
        (Inl (NetworkSecurityException (NetworkSecurityException e)), s)"
    by (intro impI) (rule read_train_fails)
next
  show "read_csv w (trained_file_path ing) = Inr train \<and>
    read_csv w (test_file_path ing) = Inl e \<longrightarrow>
      initiate_data_validation w cfg schema ing s =
        (Inl (NetworkSecurityException (NetworkSecurityException e)), s)"
    by (intro impI, elim conjE) (rule read_test_fails)
next
  show "read_csv w (trained_file_path ing) = Inr train \<and>
    read_csv w (test_file_path ing) = Inr test \<and> schema ''columns'' = None \<longrightarrow>
      initiate_data_validation w cfg schema ing s =
        (Inl (NetworkSecurityException (NetworkSecurityException (KeyError ''columns''))), s)"
    by (intro impI, elim conjE) (rule schema_columns_missing)
next
  show "columns base_df = col # cols \<and> getitem base_df col = Inr d1 \<and>
    getitem current_df col = Inr d2 \<and> ks_2samp w d1 d2 = Inl e \<longrightarrow>
      detect_dataset_drift w cfg base_df current_df t s = (Inl (NetworkSecurityException e), s)"
    by (intro impI, elim conjE) (rule ks_fails)
next
  show "drift_loop w base_df current_df t (columns base_df) (False, []) = Inl e \<longrightarrow>
      detect_dataset_drift w cfg base_df current_df t s = (Inl (NetworkSecurityException e), s)"
    by (intro impI) (rule drift_loop_fails)
next
  show "drift_loop w base_df current_df t (columns base_df) (False, []) = Inr (flag, report) \<and>
    makedirs_error w s (dirname (cfg_drift_report_file_path cfg)) = Some e \<longrightarrow>
      detect_dataset_drift w cfg base_df current_df t s = (Inl (NetworkSecurityException e), s)"
    by (intro impI, elim conjE) (rule drift_makedirs_fails)
next
  show "drift_loop w base_df current_df t (columns base_df) (False, []) = Inr (flag, report) \<and>
    makedirs_error w s (dirname (cfg_drift_report_file_path cfg)) = None \<and>
    write_yaml_error w (s @ [MakeDirs (dirname (cfg_drift_report_file_path cfg))])
      (cfg_drift_report_file_path cfg) = Some e \<longrightarrow>
      detect_dataset_drift w cfg base_df current_df t s =
        (Inl (NetworkSecurityException e),
         s @ [MakeDirs (dirname (cfg_drift_report_file_path cfg))])"
    by (intro impI, elim conjE) (rule drift_write_fails)
qed

theorem outputs_written_to_configured_paths_witness:
  "\<exists>art s'.
     initiate_data_validation
       (demo_world [(''in/train.csv'', extra_df), (''in/test.csv'', no_a_df)])
       demo_cfg demo_schema demo_ing [] = (Inr art, s') \<and>
     \<not> validation_status art \<and>
     written_csv (drop (length ([] :: int event list)) s') =
       [(''out/invalid/train.csv'', extra_df), (''out/invalid/test.csv'', no_a_df)] \<and>
     MakeDirs ''out/invalid'' \<in> set (drop (length ([] :: int event list)) s')"
proof -
  from outputs_written_to_configured_paths[OF demo_invalid_run]
  have "written_csv (drop (length ([] :: int event list))
          [LogInfo (RequiredNumberOfColumns 2), LogInfo (DataframeHasColumns 3),
           LogInfo (RequiredNumberOfColumns 2), LogInfo (DataframeHasColumns 2),
           LogInfo (MissingNumericalColumns [''a'']),
           MakeDirs ''out/invalid'',
           ToCsv ''out/invalid/train.csv'' extra_df,
           ToCsv ''out/invalid/test.csv'' no_a_df,
           LogInfo (DataValidationArtifactMsg (artifact_of demo_cfg False))]) =
       [(''out/invalid/train.csv'', extra_df), (''out/invalid/test.csv'', no_a_df)]"
    by (simp add: artifact_of_def demo_cfg_def demo_world_def demo_ing_def)
  moreover have "\<not> validation_status (artifact_of demo_cfg False)"
    by (simp add: artifact_of_def)
  ultimately show ?thesis
    using demo_invalid_run by (intro exI conjI) (assumption, simp_all)
qed

theorem drift_detection_iff_validation_status_witness:
  "(\<exists>art s'.
     initiate_data_validation
       (demo_world [(''in/train.csv'', extra_df), (''in/test.csv'', no_a_df)])
       demo_cfg demo_schema demo_ing [] = (Inr art, s') \<and>
     \<not> validation_status art \<and>
     written_yaml (drop (length ([] :: int event list)) s') = [] \<and>
     initiate_data_validation
       ((demo_world [(''in/train.csv'', extra_df), (''in/test.csv'', no_a_df)])
          \<lparr>ks_2samp := (\<lambda>d1 d2. Inl (ExternalError ''unused''))\<rparr>)
       demo_cfg demo_schema demo_ing [] = (Inr art, s')) \<and>
   (\<exists>art s' report.
     initiate_data_validation
       (demo_world [(''in/train.csv'', demo_df), (''in/test.csv'', demo_df)])
       demo_cfg demo_schema demo_ing [] = (Inr art, s') \<and>
     validation_status art \<and>
     written_yaml (drop (length ([] :: int event list)) s') =
       [(''out/drift_report/report.yaml'', report)])"
proof (rule conjI)
  have no: "\<not> validation_status (artifact_of demo_cfg False)"
    by (simp add: artifact_of_def)
  from drift_detection_iff_validation_status[OF demo_invalid_run] no
  have "initiate_data_validation
       ((demo_world [(''in/train.csv'', extra_df), (''in/test.csv'', no_a_df)])
          \<lparr>ks_2samp := (\<lambda>d1 d2. Inl (ExternalError ''unused''))\<rparr>)
       demo_cfg demo_schema demo_ing [] =
     (Inr (artifact_of demo_cfg False),
      [LogInfo (RequiredNumberOfColumns 2), LogInfo (DataframeHasColumns 3),
       LogInfo (RequiredNumberOfColumns 2), LogInfo (DataframeHasColumns 2),
       LogInfo (MissingNumericalColumns [''a'']),
       MakeDirs ''out/invalid'',
       ToCsv ''out/invalid/train.csv'' extra_df,
       ToCsv ''out/invalid/test.csv'' no_a_df,
       LogInfo (DataValidationArtifactMsg (artifact_of demo_cfg False))])"
    by auto
  with no show "\<exists>art s'.
     initiate_data_validation
       (demo_world [(''in/train.csv'', extra_df), (''in/test.csv'', no_a_df)])
       demo_cfg demo_schema demo_ing [] = (Inr art, s') \<and>
     \<not> validation_status art \<and>
     written_yaml (drop (length ([] :: int event list)) s') = [] \<and>
     initiate_data_validation
       ((demo_world [(''in/train.csv'', extra_df), (''in/test.csv'', no_a_df)])
          \<lparr>ks_2samp := (\<lambda>d1 d2. Inl (ExternalError ''unused''))\<rparr>)
       demo_cfg demo_schema demo_ing [] = (Inr art, s')"
    using demo_invalid_run by (intro exI conjI) (assumption, simp_all)
next
  have yes: "validation_status (artifact_of demo_cfg True)"
    by (simp add: artifact_of_def)
  from drift_detection_iff_validation_status[OF demo_valid_run, unfolded if_P[OF yes]]
  obtain report where "written_yaml (drop (length ([] :: int event list))
      [LogInfo (RequiredNumberOfColumns 2), LogInfo (DataframeHasColumns 2),
       LogInfo (RequiredNumberOfColumns 2), LogInfo (DataframeHasColumns 2),
       MakeDirs ''out/drift_report'',
       WriteYaml ''out/drift_report/report.yaml''
         [(''a'', \<lparr>p_value = Finite 1, drift_status = False\<rparr>),
          (''b'', \<lparr>p_value = Finite 1, drift_status = False\<rparr>)],
       MakeDirs ''out/validated'',
       ToCsv ''out/validated/train.csv'' demo_df,
       ToCsv ''out/validated/test.csv'' demo_df,
       LogInfo (DataValidationArtifactMsg (artifact_of demo_cfg True))]) =
     [(cfg_drift_report_file_path demo_cfg, report)]"
    by blast
  then have "written_yaml (drop (length ([] :: int event list))
      [LogInfo (RequiredNumberOfColumns 2), LogInfo (DataframeHasColumns 2),
       LogInfo (RequiredNumberOfColumns 2), LogInfo (DataframeHasColumns 2),
       MakeDirs ''out/drift_report'',
       WriteYaml ''out/drift_report/report.yaml''
         [(''a'', \<lparr>p_value = Finite 1, drift_status = False\<rparr>),
          (''b'', \<lparr>p_value = Finite 1, drift_status = False\<rparr>)],
       MakeDirs ''out/validated'',
       ToCsv ''out/validated/train.csv'' demo_df,
       ToCsv ''out/validated/test.csv'' demo_df,
       LogInfo (DataValidationArtifactMsg (artifact_of demo_cfg True))]) =
     [(''out/drift_report/report.yaml'', report)]"
    by (simp add: demo_cfg_def)
  with yes demo_valid_run show "\<exists>art s' report.
     initiate_data_validation
       (demo_world [(''in/train.csv'', demo_df), (''in/test.csv'', demo_df)])
       demo_cfg demo_schema demo_ing [] = (Inr art, s') \<and>
     validation_status art \<and>
     written_yaml (drop (length ([] :: int event list)) s') =
       [(''out/drift_report/report.yaml'', report)]"
    by blast
qed

theorem artifact_fields_always_configured_witness:
  "\<exists>art s'.
     initiate_data_validation
       (demo_world [(''in/train.csv'', extra_df), (''in/test.csv'', no_a_df)])
       demo_cfg demo_schema demo_ing [] = (Inr art, s') \<and>
     {cfg_valid_train_file_path demo_cfg, cfg_valid_test_file_path demo_cfg,
      cfg_drift_report_file_path demo_cfg} \<inter>
     {cfg_invalid_train_file_path demo_cfg, cfg_invalid_test_file_path demo_cfg} = {} \<and>
     \<not> validation_status art \<and>
     valid_train_file_path art = ''out/validated/train.csv'' \<and>
     drift_report_file_path art = ''out/drift_report/report.yaml'' \<and>
     valid_train_file_path art \<notin> set (written_paths (drop (length ([] :: int event list)) s')) \<and>
     valid_test_file_path art \<notin> set (written_paths (drop (length ([] :: int event list)) s')) \<and>
     drift_report_file_path art \<notin> set (written_paths (drop (length ([] :: int event list)) s'))"
proof -
  have d: "{cfg_valid_train_file_path demo_cfg, cfg_valid_test_file_path demo_cfg,
      cfg_drift_report_file_path demo_cfg} \<inter>
     {cfg_invalid_train_file_path demo_cfg, cfg_invalid_test_file_path demo_cfg} = {}"
    by (simp add: demo_cfg_def)
  have no: "\<not> validation_status (artifact_of demo_cfg False)"
    and f: "valid_train_file_path (artifact_of demo_cfg False) = ''out/validated/train.csv''"
      "drift_report_file_path (artifact_of demo_cfg False) = ''out/drift_report/report.yaml''"
    by (simp_all add: artifact_of_def demo_cfg_def)
  from artifact_fields_always_configured[OF demo_invalid_run d, unfolded if_not_P[OF no]]
  have "valid_train_file_path (artifact_of demo_cfg False) \<notin> set (written_paths (drop (length ([] :: int event list))
          [LogInfo (RequiredNumberOfColumns 2), LogInfo (DataframeHasColumns 3),
           LogInfo (RequiredNumberOfColumns 2), LogInfo (DataframeHasColumns 2),
           LogInfo (MissingNumericalColumns [''a'']),
           MakeDirs ''out/invalid'',
           ToCsv ''out/invalid/train.csv'' extra_df,
           ToCsv ''out/invalid/test.csv'' no_a_df,
           LogInfo (DataValidationArtifactMsg (artifact_of demo_cfg False))]))"
    "valid_test_file_path (artifact_of demo_cfg False) \<notin> set (written_paths (drop (length ([] :: int event list))
          [LogInfo (RequiredNumberOfColumns 2), LogInfo (DataframeHasColumns 3),
           LogInfo (RequiredNumberOfColumns 2), LogInfo (DataframeHasColumns 2),
           LogInfo (MissingNumericalColumns [''a'']),
           MakeDirs ''out/invalid'',
           ToCsv ''out/invalid/train.csv'' extra_df,
           ToCsv ''out/invalid/test.csv'' no_a_df,
           LogInfo (DataValidationArtifactMsg (artifact_of demo_cfg False))]))"
    "drift_report_file_path (artifact_of demo_cfg False) \<notin> set (written_paths (drop (length ([] :: int event list))
          [LogInfo (RequiredNumberOfColumns 2), LogInfo (DataframeHasColumns 3),
           LogInfo (RequiredNumberOfColumns 2), LogInfo (DataframeHasColumns 2),
           LogInfo (MissingNumericalColumns [''a'']),
           MakeDirs ''out/invalid'',
           ToCsv ''out/invalid/train.csv'' extra_df,
           ToCsv ''out/invalid/test.csv'' no_a_df,
           LogInfo (DataValidationArtifactMsg (artifact_of demo_cfg False))]))"
    by blast+
  with d no f show ?thesis
    using demo_invalid_run by (intro exI conjI) (assumption, simp_all)
qed

theorem errors_wrapped_in_network_security_exception_witness:
  "initiate_data_validation (demo_world []) demo_cfg demo_schema demo_ing [] =
     (Inl (NetworkSecurityException (NetworkSecurityException (ExternalError ''FileNotFoundError''))),
      []) \<and>
   detect_dataset_drift (demo_world []) demo_cfg empty_df empty_df (Finite (5 / 100)) [] =
     (Inl (NetworkSecurityException (ExternalError ''ValueError'')), []) \<and>
   initiate_data_validation
     (readonly_world [(''in/train.csv'', extra_df), (''in/test.csv'', no_a_df)])
     demo_cfg demo_schema demo_ing [] =
     (Inl (NetworkSecurityException (ExternalError ''PermissionError'')),
      [LogInfo (RequiredNumberOfColumns 2), LogInfo (DataframeHasColumns 3),
       LogInfo (RequiredNumberOfColumns 2), LogInfo (DataframeHasColumns 2),
       LogInfo (MissingNumericalColumns [''a'']),
       MakeDirs ''out/invalid''])"
proof (intro conjI)
  note T1 = errors_wrapped_in_network_security_exception[
      where w = "demo_world []" and cfg = demo_cfg and schema = demo_schema and ing = demo_ing
        and s = "[]" and e = "ExternalError ''FileNotFoundError''"]
  have "read_csv (demo_world []) (trained_file_path demo_ing) =
          Inl (ExternalError ''FileNotFoundError'')"
    by (simp add: demo_world_def)
  with T1 show "initiate_data_validation (demo_world []) demo_cfg demo_schema demo_ing [] =
     (Inl (NetworkSecurityException (NetworkSecurityException (ExternalError ''FileNotFoundError''))),
      [])"
    by blast
next
  note T2 = errors_wrapped_in_network_security_exception[
      where w = "demo_world []" and cfg = demo_cfg and base_df = empty_df
        and current_df = empty_df and t = "Finite (5 / 100)" and s = "[]" and col = "''a''"
        and cols = "[]" and ?d1.0 = "[]" and ?d2.0 = "[]" and e = "ExternalError ''ValueError''"]
  have "columns empty_df = ''a'' # []" "getitem empty_df ''a'' = Inr []"
    "ks_2samp (demo_world []) [] [] = Inl (ExternalError ''ValueError'')"
    by (simp_all add: columns_def getitem_def empty_df_def demo_world_def demo_ks_def)
  with T2 show "detect_dataset_drift (demo_world []) demo_cfg empty_df empty_df (Finite (5 / 100)) [] =
     (Inl (NetworkSecurityException (ExternalError ''ValueError'')), [])"
    by blast
next
  let ?w = "readonly_world [(''in/train.csv'', extra_df), (''in/test.csv'', no_a_df)]"
  let ?s4 = "[LogInfo (RequiredNumberOfColumns 2), LogInfo (DataframeHasColumns 3),
       LogInfo (RequiredNumberOfColumns 2), LogInfo (DataframeHasColumns 2),
       LogInfo (MissingNumericalColumns [''a''])] :: int event list"
  note T3 = errors_wrapped_in_network_security_exception[
      where w = ?w and cfg = demo_cfg and schema = demo_schema and ing = demo_ing
        and s = "[]" and e = "ExternalError ''PermissionError''"
        and train = extra_df and test = no_a_df
        and a = False and ?s1.0 = "[LogInfo (RequiredNumberOfColumns 2), LogInfo (DataframeHasColumns 3)]"
        and b = True and ?s2.0 = "[LogInfo (RequiredNumberOfColumns 2), LogInfo (DataframeHasColumns 3),
              LogInfo (RequiredNumberOfColumns 2), LogInfo (DataframeHasColumns 2)]"
        and c = True and ?s3.0 = "[LogInfo (RequiredNumberOfColumns 2), LogInfo (DataframeHasColumns 3),
              LogInfo (RequiredNumberOfColumns 2), LogInfo (DataframeHasColumns 2)]"
        and d = False and ?s4.0 = ?s4 and ?s5.0 = ?s4]
  have h: "read_csv ?w (trained_file_path demo_ing) = Inr extra_df"
    "read_csv ?w (test_file_path demo_ing) = Inr no_a_df"
    "validate_number_of_columns demo_schema extra_df ([] :: int event list) =
       (Inr False, [LogInfo (RequiredNumberOfColumns 2), LogInfo (DataframeHasColumns 3)])"
    "validate_number_of_columns demo_schema no_a_df
       ([LogInfo (RequiredNumberOfColumns 2), LogInfo (DataframeHasColumns 3)] :: int event list) =
       (Inr True, [LogInfo (RequiredNumberOfColumns 2), LogInfo (DataframeHasColumns 3),
              LogInfo (RequiredNumberOfColumns 2), LogInfo (DataframeHasColumns 2)])"
    "is_numerical_column_exist demo_schema extra_df
       ([LogInfo (RequiredNumberOfColumns 2), LogInfo (DataframeHasColumns 3),
         LogInfo (RequiredNumberOfColumns 2), LogInfo (DataframeHasColumns 2)] :: int event list) =
       (Inr True, [LogInfo (RequiredNumberOfColumns 2), LogInfo (DataframeHasColumns 3),
              LogInfo (RequiredNumberOfColumns 2), LogInfo (DataframeHasColumns 2)])"
    "is_numerical_column_exist demo_schema no_a_df
       ([LogInfo (RequiredNumberOfColumns 2), LogInfo (DataframeHasColumns 3),
         LogInfo (RequiredNumberOfColumns 2), LogInfo (DataframeHasColumns 2)] :: int event list) =
       (Inr False, ?s4)"
    by (simp_all add: readonly_world_def validate_number_of_columns_def
        is_numerical_column_exist_def schema_getitem_def columns_def prog_defs demo_defs)
  have p: "makedirs_error ?w ?s4 (out_dir demo_cfg (False \<and> True \<and> True \<and> False)) = None"
    "to_csv_error ?w (?s4 @ [MakeDirs (out_dir demo_cfg (False \<and> True \<and> True \<and> False))])
       (train_out demo_cfg (False \<and> True \<and> True \<and> False)) =
       Some (ExternalError ''PermissionError'')"
    by (simp_all add: readonly_world_def demo_world_def)
  from T3 h p
  have "initiate_data_validation ?w demo_cfg demo_schema demo_ing [] =
      (Inl (NetworkSecurityException (ExternalError ''PermissionError'')),
       ?s4 @ [MakeDirs (out_dir demo_cfg (False \<and> True \<and> True \<and> False))])"
    by simp
  then show "initiate_data_validation ?w demo_cfg demo_schema demo_ing [] =
     (Inl (NetworkSecurityException (ExternalError ''PermissionError'')),
      [LogInfo (RequiredNumberOfColumns 2), LogInfo (DataframeHasColumns 3),
       LogInfo (RequiredNumberOfColumns 2), LogInfo (DataframeHasColumns 2),
       LogInfo (MissingNumericalColumns [''a'']),
       MakeDirs ''out/invalid''])"
    by (simp add: out_dir_def demo_cfg_def)
qed

end
